theory Spec2Isabelle
  imports Complex_Main
begin

section \<open>Residual building blocks of pytorch-tools (modules/residual.py)\<close>

text \<open>
  The module wires convolutions, normalisations, attention modules and stochastic depth
  into residual blocks and stages. The tensor operations themselves belong to torch and
  to collaborators of the package; they enter the embedding as the fields of a record
  \<open>'t torch\<close> over an arbitrary tensor type \<open>'t\<close>, each a function that may raise. What the
  file itself decides (which layers are built, with which arguments, and in which order
  \<open>forward\<close> applies them) is translated function by function.
\<close>

subsection \<open>Exceptions and sequencing\<close>

datatype error =
    KeyError string
  | NameError string
  | UnboundLocalError string
  | ValueError
  | TypeError
  | AssertionError
  | AttributeError string
  | TorchError

text \<open>A statement that raises ends the function: the rest runs only on a value.\<close>

definition bindE :: "error + 'a \<Rightarrow> ('a \<Rightarrow> error + 'b) \<Rightarrow> error + 'b" where
  "bindE m f = (case m of Inl e \<Rightarrow> Inl e | Inr v \<Rightarrow> f v)"

text \<open>\<open>nn.Sequential\<close>: the modules one after the other.\<close>

fun Sequential :: "('m \<Rightarrow> 't \<Rightarrow> error + 't) \<Rightarrow> 'm list \<Rightarrow> 't \<Rightarrow> error + 't" where
  "Sequential fwd [] x = Inr x"
| "Sequential fwd (m # ms) x = bindE (fwd m x) (Sequential fwd ms)"

subsection \<open>Python values\<close>

text \<open>
  Python integers are \<open>int\<close>. Python floats are modelled by the real numbers they denote
  (rounding is not modelled); \<open>int(x)\<close> truncates towards zero.
\<close>

definition py_int :: "real \<Rightarrow> int" where
  "py_int x = (if 0 \<le> x then \<lfloor>x\<rfloor> else \<lceil>x\<rceil>)"

text \<open>
  \<open>str.lower()\<close> on a string given as its bytes (UTF-8): the letters A to Z are
  lowered. A code point outside ASCII is a sequence of bytes from 128 on, left as it is
  here. Python lowers such letters too, into code points outside ASCII again, but for the
  Kelvin sign and the dotted capital I, which give \<open>k\<close> and \<open>i\<close>: never a letter of the
  names \<open>get_attn\<close> knows, so the lookup below finds the same entry or none either way.
\<close>

definition lower_char :: "char \<Rightarrow> char" where
  "lower_char c =
     (let n = (of_char c :: nat) in if 65 \<le> n \<and> n \<le> 90 then char_of (n + 32) else c)"

definition lower :: "string \<Rightarrow> string" where
  "lower s = map lower_char s"

subsection \<open>Layers of torch and of the package's collaborators\<close>

text \<open>\<open>nn.Conv2d\<close> and \<open>nn.Conv1d\<close> as constructed: the arguments of the constructor.\<close>

record Conv =
  c_in_channels :: int
  c_out_channels :: int
  c_kernel_size :: int
  c_stride :: int
  c_padding :: int
  c_groups :: int
  c_bias :: bool
  c_dilation :: int

text \<open>\<open>norm_layer(num_features, activation=name)\<close>, by default \<open>ABN\<close>.\<close>

record ABN =
  abn_num_features :: int
  abn_activation :: string

text \<open>
  The operations the file calls on tensors and layers. \<open>'t\<close> is the tensor type. A field
  with result \<open>error + 't\<close> may raise (a shape that does not fit, for one); layers are
  functions of their input and leave it unchanged.
\<close>

record 't torch =
  nn_Conv2d :: "Conv \<Rightarrow> 't \<Rightarrow> error + 't"
  nn_Conv1d :: "Conv \<Rightarrow> 't \<Rightarrow> error + 't"
  norm_forward :: "ABN \<Rightarrow> 't \<Rightarrow> error + 't"
  activation_forward :: "string \<Rightarrow> 't \<Rightarrow> error + 't"
  BlurPool_forward :: "int \<Rightarrow> 't \<Rightarrow> error + 't"
  FastGlobalAvgPool2d_forward :: "'t \<Rightarrow> error + 't"
  t_add :: "'t \<Rightarrow> 't \<Rightarrow> error + 't"
  t_mul :: "'t \<Rightarrow> 't \<Rightarrow> error + 't"
  t_div :: "'t \<Rightarrow> real \<Rightarrow> 't"
  t_radd :: "real \<Rightarrow> 't \<Rightarrow> 't"
  t_sigmoid :: "'t \<Rightarrow> 't"
  t_size0 :: "'t \<Rightarrow> int"
  t_view :: "'t \<Rightarrow> int list \<Rightarrow> error + 't"
  t_expand_as :: "'t \<Rightarrow> 't \<Rightarrow> error + 't"
  torch_cat :: "'t list \<Rightarrow> error + 't"
  torch_chunk :: "'t \<Rightarrow> nat \<Rightarrow> 't list"
  torch_rand :: "int list \<Rightarrow> 't"
  torch_floor :: "'t \<Rightarrow> 't"

text \<open>A field that holds either a module or \<open>nn.Identity()\<close>, whose forward returns its input.\<close>

datatype 'm or_Identity = Identity | Module 'm

definition forward_or_Identity ::
  "('m \<Rightarrow> 't \<Rightarrow> error + 't) \<Rightarrow> 'm or_Identity \<Rightarrow> 't \<Rightarrow> error + 't" where
  "forward_or_Identity fwd m x = (case m of Identity \<Rightarrow> Inr x | Module m' \<Rightarrow> fwd m' x)"

subsection \<open>conv3x3, conv1x1\<close>

definition conv3x3 :: "int \<Rightarrow> int \<Rightarrow> int \<Rightarrow> int \<Rightarrow> int \<Rightarrow> bool \<Rightarrow> Conv" where
  "conv3x3 in_planes out_planes stride groups dilation bias =
     \<lparr>c_in_channels = in_planes, c_out_channels = out_planes, c_kernel_size = 3,
      c_stride = stride, c_padding = dilation, c_groups = groups, c_bias = bias,
      c_dilation = dilation\<rparr>"

text \<open>\<open>nn.Conv2d\<close>'s own defaults fill what \<open>conv1x1\<close> does not pass: no padding, one group, dilation 1.\<close>

definition conv1x1 :: "int \<Rightarrow> int \<Rightarrow> int \<Rightarrow> bool \<Rightarrow> Conv" where
  "conv1x1 in_planes out_planes stride bias =
     \<lparr>c_in_channels = in_planes, c_out_channels = out_planes, c_kernel_size = 1,
      c_stride = stride, c_padding = 0, c_groups = 1, c_bias = bias, c_dilation = 1\<rparr>"

subsection \<open>Attention modules\<close>

record SEModule =
  se_fc1 :: Conv
  se_act1 :: string
  se_fc2 :: Conv

definition SEModule_init :: "int \<Rightarrow> int \<Rightarrow> string \<Rightarrow> SEModule" where
  "SEModule_init channels reduction_channels norm_act =
     \<lparr>se_fc1 = conv1x1 channels reduction_channels 1 True,
      se_act1 = norm_act,
      se_fc2 = conv1x1 reduction_channels channels 1 True\<rparr>"

definition SEModule_forward :: "'t torch \<Rightarrow> SEModule \<Rightarrow> 't \<Rightarrow> error + 't" where
  "SEModule_forward T m x =
     bindE (FastGlobalAvgPool2d_forward T x) (\<lambda>x_se.
     bindE (nn_Conv2d T (se_fc1 m) x_se) (\<lambda>x_se.
     bindE (activation_forward T (se_act1 m) x_se) (\<lambda>x_se.
     bindE (nn_Conv2d T (se_fc2 m) x_se) (\<lambda>x_se.
     t_mul T x (t_sigmoid T x_se)))))"

record ECAModule =
  eca_conv :: Conv

definition ECAModule_init :: ECAModule where
  "ECAModule_init =
     \<lparr>eca_conv = \<lparr>c_in_channels = 1, c_out_channels = 1, c_kernel_size = 3, c_stride = 1,
        c_padding = 1, c_groups = 1, c_bias = False, c_dilation = 1\<rparr>\<rparr>"

definition ECAModule_forward :: "'t torch \<Rightarrow> ECAModule \<Rightarrow> 't \<Rightarrow> error + 't" where
  "ECAModule_forward T m x =
     bindE (FastGlobalAvgPool2d_forward T x) (\<lambda>x_s.
     bindE (t_view T x_s [t_size0 T x, 1, - 1]) (\<lambda>v.
     bindE (nn_Conv1d T (eca_conv m) v) (\<lambda>x_s.
     bindE (t_view T x_s [t_size0 T x, - 1, 1, 1]) (\<lambda>v.
     bindE (t_expand_as T (t_sigmoid T v) x) (\<lambda>x_s.
     t_mul T x x_s)))))"

record SSEModule =
  sse_conv :: Conv

definition SSEModule_init :: "int \<Rightarrow> SSEModule" where
  "SSEModule_init in_ch = \<lparr>sse_conv = conv1x1 in_ch 1 1 True\<rparr>"

definition SSEModule_forward :: "'t torch \<Rightarrow> SSEModule \<Rightarrow> 't \<Rightarrow> error + 't" where
  "SSEModule_forward T m x =
     bindE (nn_Conv2d T (sse_conv m) x) (\<lambda>s. t_mul T x (t_sigmoid T s))"

record SCSEModule =
  scse_sse :: SSEModule
  scse_cse :: ECAModule
  scse_reduction_conv :: Conv

definition SCSEModule_init :: "int \<Rightarrow> SCSEModule" where
  "SCSEModule_init in_ch =
     \<lparr>scse_sse = SSEModule_init in_ch, scse_cse = ECAModule_init,
      scse_reduction_conv = conv1x1 (in_ch * 2) in_ch 1 True\<rparr>"

definition SCSEModule_forward :: "'t torch \<Rightarrow> SCSEModule \<Rightarrow> 't \<Rightarrow> error + 't" where
  "SCSEModule_forward T m x =
     bindE (SSEModule_forward T (scse_sse m) x) (\<lambda>a.
     bindE (ECAModule_forward T (scse_cse m) x) (\<lambda>b.
     bindE (torch_cat T [a, b]) (\<lambda>c.
     nn_Conv2d T (scse_reduction_conv m) c)))"

subsection \<open>get_attn\<close>

text \<open>The classes \<open>get_attn\<close> can return, and the modules they construct.\<close>

datatype attn_class = SEModule_class | ECAModule_class | SSEModule_class | SCSEModule_class
  | Identity_class

datatype attn_module = SE SEModule | ECA ECAModule | SSE SSEModule | SCSE SCSEModule

definition ATT_TO_MODULE :: "(string \<times> attn_class) list" where
  "ATT_TO_MODULE =
     [(''se'', SEModule_class), (''eca'', ECAModule_class), (''sse'', SSEModule_class),
      (''scse'', SCSEModule_class)]"

definition get_attn :: "string option \<Rightarrow> error + attn_class" where
  "get_attn attn_type =
     (case attn_type of
        None \<Rightarrow> Inr Identity_class
      | Some s \<Rightarrow>
          (case map_of ATT_TO_MODULE (lower s) of
             None \<Rightarrow> Inl (KeyError (lower s))
           | Some cls \<Rightarrow> Inr cls))"

text \<open>
  Calling the class \<open>get_attn\<close> returned, as the blocks do: with the channels, the reduced
  channels and (where the caller passes none, \<open>SEModule\<close>'s default \<open>relu\<close>) the activation.
  \<open>ECAModule\<close>, \<open>SSEModule\<close>, \<open>SCSEModule\<close> and \<open>nn.Identity\<close> ignore the arguments they
  do not name.
\<close>

definition attn_construct :: "attn_class \<Rightarrow> int \<Rightarrow> int \<Rightarrow> string \<Rightarrow> attn_module or_Identity" where
  "attn_construct cls channels reduction_channels norm_act =
     (case cls of
        SEModule_class \<Rightarrow> Module (SE (SEModule_init channels reduction_channels norm_act))
      | ECAModule_class \<Rightarrow> Module (ECA ECAModule_init)
      | SSEModule_class \<Rightarrow> Module (SSE (SSEModule_init channels))
      | SCSEModule_class \<Rightarrow> Module (SCSE (SCSEModule_init channels))
      | Identity_class \<Rightarrow> Identity)"

definition attn_module_forward :: "'t torch \<Rightarrow> attn_module \<Rightarrow> 't \<Rightarrow> error + 't" where
  "attn_module_forward T m x =
     (case m of
        SE m' \<Rightarrow> SEModule_forward T m' x
      | ECA m' \<Rightarrow> ECAModule_forward T m' x
      | SSE m' \<Rightarrow> SSEModule_forward T m' x
      | SCSE m' \<Rightarrow> SCSEModule_forward T m' x)"

definition attn_forward :: "'t torch \<Rightarrow> attn_module or_Identity \<Rightarrow> 't \<Rightarrow> error + 't" where
  "attn_forward T m x = forward_or_Identity (attn_module_forward T) m x"

subsection \<open>DropConnect\<close>

text \<open>\<open>training\<close> is the flag every \<open>nn.Module\<close> carries: set at construction, cleared by \<open>eval()\<close>.\<close>

record DropConnect =
  dc_keep_prob :: real
  dc_training :: bool

definition DropConnect_init :: "real \<Rightarrow> DropConnect" where
  "DropConnect_init keep_prob = \<lparr>dc_keep_prob = keep_prob, dc_training = True\<rparr>"

definition DropConnect_forward :: "'t torch \<Rightarrow> DropConnect \<Rightarrow> 't \<Rightarrow> error + 't" where
  "DropConnect_forward T m x =
     (if \<not> dc_training m then Inr x
      else
        let batch_size = t_size0 T x;
            random_tensor = t_radd T (dc_keep_prob m) (torch_rand T [batch_size, 1, 1, 1]);
            binary_tensor = torch_floor T random_tensor
        in t_mul T (t_div T x (dc_keep_prob m)) binary_tensor)"

text \<open>\<open>DropConnect(keep_prob) if keep_prob < 1 else nn.Identity()\<close>, as every block builds it.\<close>

definition make_drop_connect :: "real \<Rightarrow> DropConnect or_Identity" where
  "make_drop_connect keep_prob =
     (if keep_prob < 1 then Module (DropConnect_init keep_prob) else Identity)"

definition drop_connect_forward :: "'t torch \<Rightarrow> DropConnect or_Identity \<Rightarrow> 't \<Rightarrow> error + 't" where
  "drop_connect_forward T m x = forward_or_Identity (DropConnect_forward T) m x"

subsection \<open>InvertedResidual\<close>

text \<open>\<open>conv_pw\<close> and \<open>bn1\<close> are attributes only of a block with expansion.\<close>

record InvertedResidual =
  ir_has_residual :: bool
  ir_has_expansion :: bool
  ir_conv_pw :: "Conv option"
  ir_bn1 :: "ABN option"
  ir_conv_dw :: Conv
  ir_bn2 :: ABN
  ir_se :: "attn_module or_Identity"
  ir_conv_pw1 :: Conv
  ir_bn3 :: ABN
  ir_drop_connect :: "DropConnect or_Identity"

text \<open>
  \<open>make_divisible\<close> lives in \<open>pytorch_tools.utils.misc\<close>, outside this file: it is the first
  parameter.
\<close>

definition InvertedResidual_init ::
  "(real \<Rightarrow> int) \<Rightarrow> int \<Rightarrow> int \<Rightarrow> int \<Rightarrow> int \<Rightarrow> int \<Rightarrow> string option \<Rightarrow> real \<Rightarrow> real \<Rightarrow> bool
     \<Rightarrow> string \<Rightarrow> error + InvertedResidual" where
  "InvertedResidual_init make_divisible in_channels out_channels dw_kernel_size stride dilation
      attn_type expand_ratio keep_prob noskip norm_act =
     (let mid_chs = make_divisible (of_int in_channels * expand_ratio);
          has_residual = ((in_channels = out_channels \<and> stride = 1) \<and> \<not> noskip);
          has_expansion = (expand_ratio \<noteq> 1)
      in bindE (get_attn attn_type) (\<lambda>cls. Inr
        \<lparr>ir_has_residual = has_residual,
         ir_has_expansion = has_expansion,
         ir_conv_pw = (if has_expansion then Some (conv1x1 in_channels mid_chs 1 False) else None),
         ir_bn1 = (if has_expansion
                   then Some \<lparr>abn_num_features = mid_chs, abn_activation = norm_act\<rparr> else None),
         ir_conv_dw =
           \<lparr>c_in_channels = mid_chs, c_out_channels = mid_chs, c_kernel_size = dw_kernel_size,
            c_stride = stride, c_padding = dilation * (dw_kernel_size - 1) div 2,
            c_groups = mid_chs, c_bias = False, c_dilation = dilation\<rparr>,
         ir_bn2 = \<lparr>abn_num_features = mid_chs, abn_activation = norm_act\<rparr>,
         ir_se = attn_construct cls mid_chs (in_channels div 4) norm_act,
         ir_conv_pw1 = conv1x1 mid_chs out_channels 1 False,
         ir_bn3 = \<lparr>abn_num_features = out_channels, abn_activation = ''identity''\<rparr>,
         ir_drop_connect = make_drop_connect keep_prob\<rparr>))"

definition attribute :: "string \<Rightarrow> 'a option \<Rightarrow> error + 'a" where
  "attribute name v = (case v of None \<Rightarrow> Inl (AttributeError name) | Some a \<Rightarrow> Inr a)"

definition InvertedResidual_forward :: "'t torch \<Rightarrow> InvertedResidual \<Rightarrow> 't \<Rightarrow> error + 't" where
  "InvertedResidual_forward T m x =
     (let residual = x in
      bindE (if ir_has_expansion m
             then bindE (attribute ''conv_pw'' (ir_conv_pw m)) (\<lambda>conv_pw.
                  bindE (nn_Conv2d T conv_pw x) (\<lambda>x.
                  bindE (attribute ''bn1'' (ir_bn1 m)) (\<lambda>bn1.
                  norm_forward T bn1 x)))
             else Inr x) (\<lambda>x.
      bindE (nn_Conv2d T (ir_conv_dw m) x) (\<lambda>x.
      bindE (norm_forward T (ir_bn2 m) x) (\<lambda>x.
      bindE (attn_forward T (ir_se m) x) (\<lambda>x.
      bindE (nn_Conv2d T (ir_conv_pw1 m) x) (\<lambda>x.
      bindE (norm_forward T (ir_bn3 m) x) (\<lambda>x.
      if ir_has_residual m
      then bindE (drop_connect_forward T (ir_drop_connect m) x) (\<lambda>d. t_add T d residual)
      else Inr x)))))))"

subsection \<open>BasicBlock and Bottleneck\<close>

text \<open>
  \<open>downsample\<close> is a module the caller passes, or \<open>None\<close>: here its forward function.
  \<open>blurpool\<close> is \<open>BlurPool(channels=...)\<close>, kept as its channel count, or \<open>nn.Identity()\<close>.
\<close>

record 't BasicBlock =
  bb_conv1 :: Conv
  bb_bn1 :: ABN
  bb_conv2 :: Conv
  bb_bn2 :: ABN
  bb_se_module :: "attn_module or_Identity"
  bb_final_act :: string
  bb_downsample :: "('t \<Rightarrow> error + 't) option"
  bb_blurpool :: "int or_Identity"
  bb_antialias :: bool
  bb_drop_connect :: "DropConnect or_Identity"

definition BasicBlock_expansion :: int where
  "BasicBlock_expansion = 1"

definition BasicBlock_init ::
  "int \<Rightarrow> int \<Rightarrow> int \<Rightarrow> ('t \<Rightarrow> error + 't) option \<Rightarrow> int \<Rightarrow> int \<Rightarrow> string option \<Rightarrow> int
     \<Rightarrow> string \<Rightarrow> bool \<Rightarrow> real \<Rightarrow> error + 't BasicBlock" where
  "BasicBlock_init inplanes planes stride downsample groups base_width attn_type dilation
      norm_act antialias keep_prob =
     (let antialias = (antialias \<and> stride = 2) in
      if groups \<noteq> 1 then Inl AssertionError
      else if base_width \<noteq> 64 then Inl AssertionError
      else
        let outplanes = planes * BasicBlock_expansion;
            conv1_stride = (if antialias then 1 else stride)
        in bindE (get_attn attn_type) (\<lambda>cls. Inr
          \<lparr>bb_conv1 = conv3x3 inplanes planes conv1_stride groups dilation False,
           bb_bn1 = \<lparr>abn_num_features = planes, abn_activation = norm_act\<rparr>,
           bb_conv2 = conv3x3 planes outplanes 1 1 1 False,
           bb_bn2 = \<lparr>abn_num_features = outplanes, abn_activation = ''identity''\<rparr>,
           bb_se_module = attn_construct cls outplanes (planes div 4) ''relu'',
           bb_final_act = norm_act,
           bb_downsample = downsample,
           bb_blurpool = (if antialias then Module planes else Identity),
           bb_antialias = antialias,
           bb_drop_connect = make_drop_connect keep_prob\<rparr>))"

definition BasicBlock_forward :: "'t torch \<Rightarrow> 't BasicBlock \<Rightarrow> 't \<Rightarrow> error + 't" where
  "BasicBlock_forward T m x =
     bindE (case bb_downsample m of None \<Rightarrow> Inr x | Some downsample \<Rightarrow> downsample x)
       (\<lambda>residual.
     bindE (nn_Conv2d T (bb_conv1 m) x) (\<lambda>out.
     bindE (norm_forward T (bb_bn1 m) out) (\<lambda>out.
     bindE (if bb_antialias m
            then forward_or_Identity (BlurPool_forward T) (bb_blurpool m) out
            else Inr out) (\<lambda>out.
     bindE (nn_Conv2d T (bb_conv2 m) out) (\<lambda>out.
     bindE (norm_forward T (bb_bn2 m) out) (\<lambda>out.
     bindE (attn_forward T (bb_se_module m) out) (\<lambda>out.
     bindE (drop_connect_forward T (bb_drop_connect m) out) (\<lambda>out.
     bindE (t_add T out residual) (\<lambda>out.
     activation_forward T (bb_final_act m) out)))))))))"

record 't Bottleneck =
  bt_conv1 :: Conv
  bt_bn1 :: ABN
  bt_conv2 :: Conv
  bt_bn2 :: ABN
  bt_conv3 :: Conv
  bt_bn3 :: ABN
  bt_se_module :: "attn_module or_Identity"
  bt_final_act :: string
  bt_downsample :: "('t \<Rightarrow> error + 't) option"
  bt_blurpool :: "int or_Identity"
  bt_antialias :: bool
  bt_drop_connect :: "DropConnect or_Identity"

definition Bottleneck_expansion :: int where
  "Bottleneck_expansion = 4"

definition Bottleneck_init ::
  "int \<Rightarrow> int \<Rightarrow> int \<Rightarrow> ('t \<Rightarrow> error + 't) option \<Rightarrow> int \<Rightarrow> int \<Rightarrow> string option \<Rightarrow> int
     \<Rightarrow> string \<Rightarrow> bool \<Rightarrow> real \<Rightarrow> error + 't Bottleneck" where
  "Bottleneck_init inplanes planes stride downsample groups base_width attn_type dilation
      norm_act antialias keep_prob =
     (let antialias = (antialias \<and> stride = 2);
          width = \<lfloor>of_int planes * (of_int base_width / 64 :: real)\<rfloor> * groups;
          outplanes = planes * Bottleneck_expansion;
          conv2_stride = (if antialias then 1 else stride)
      in bindE (get_attn attn_type) (\<lambda>cls. Inr
        \<lparr>bt_conv1 = conv1x1 inplanes width 1 False,
         bt_bn1 = \<lparr>abn_num_features = width, abn_activation = norm_act\<rparr>,
         bt_conv2 = conv3x3 width width conv2_stride groups dilation False,
         bt_bn2 = \<lparr>abn_num_features = width, abn_activation = norm_act\<rparr>,
         bt_conv3 = conv1x1 width outplanes 1 False,
         bt_bn3 = \<lparr>abn_num_features = outplanes, abn_activation = ''identity''\<rparr>,
         bt_se_module = attn_construct cls outplanes (planes div 4) ''relu'',
         bt_final_act = norm_act,
         bt_downsample = downsample,
         bt_blurpool = (if antialias then Module width else Identity),
         bt_antialias = antialias,
         bt_drop_connect = make_drop_connect keep_prob\<rparr>))"

definition Bottleneck_forward :: "'t torch \<Rightarrow> 't Bottleneck \<Rightarrow> 't \<Rightarrow> error + 't" where
  "Bottleneck_forward T m x =
     bindE (case bt_downsample m of None \<Rightarrow> Inr x | Some downsample \<Rightarrow> downsample x)
       (\<lambda>residual.
     bindE (nn_Conv2d T (bt_conv1 m) x) (\<lambda>out.
     bindE (norm_forward T (bt_bn1 m) out) (\<lambda>out.
     bindE (nn_Conv2d T (bt_conv2 m) out) (\<lambda>out.
     bindE (norm_forward T (bt_bn2 m) out) (\<lambda>out.
     bindE (if bt_antialias m
            then forward_or_Identity (BlurPool_forward T) (bt_blurpool m) out
            else Inr out) (\<lambda>out.
     bindE (nn_Conv2d T (bt_conv3 m) out) (\<lambda>out.
     bindE (norm_forward T (bt_bn3 m) out) (\<lambda>out.
     bindE (attn_forward T (bt_se_module m) out) (\<lambda>out.
     bindE (drop_connect_forward T (bt_drop_connect m) out) (\<lambda>out.
     bindE (t_add T out residual) (\<lambda>out.
     activation_forward T (bt_final_act m) out)))))))))))"

subsection \<open>DarkBasicBlock\<close>

record DarkBasicBlock =
  db_bn1 :: ABN
  db_conv1 :: Conv
  db_bn2 :: ABN
  db_conv2 :: Conv
  db_attention :: "attn_module or_Identity"
  db_drop_connect :: "DropConnect or_Identity"

definition DarkBasicBlock_init ::
  "int \<Rightarrow> int \<Rightarrow> real \<Rightarrow> string option \<Rightarrow> string \<Rightarrow> real \<Rightarrow> error + DarkBasicBlock" where
  "DarkBasicBlock_init in_channels out_channels bottle_ratio attn_type norm_act keep_prob =
     (let mid_channels = py_int (of_int in_channels * bottle_ratio) in
      bindE (get_attn attn_type) (\<lambda>cls. Inr
        \<lparr>db_bn1 = \<lparr>abn_num_features = mid_channels, abn_activation = norm_act\<rparr>,
         db_conv1 = conv1x1 in_channels mid_channels 1 False,
         db_bn2 = \<lparr>abn_num_features = out_channels, abn_activation = norm_act\<rparr>,
         db_conv2 = conv3x3 mid_channels out_channels 1 32 1 False,
         db_attention = attn_construct cls out_channels (out_channels div 4) ''relu'',
         db_drop_connect = make_drop_connect keep_prob\<rparr>))"

text \<open>The first statement binds \<open>out\<close> to \<open>bn1(x)\<close>; the second binds it anew to \<open>conv1(x)\<close>.\<close>

definition DarkBasicBlock_forward :: "'t torch \<Rightarrow> DarkBasicBlock \<Rightarrow> 't \<Rightarrow> error + 't" where
  "DarkBasicBlock_forward T m x =
     bindE (norm_forward T (db_bn1 m) x) (\<lambda>out.
     bindE (nn_Conv2d T (db_conv1 m) x) (\<lambda>out.
     bindE (norm_forward T (db_bn2 m) out) (\<lambda>out.
     bindE (nn_Conv2d T (db_conv2 m) out) (\<lambda>out.
     bindE (attn_forward T (db_attention m) out) (\<lambda>a.
     bindE (drop_connect_forward T (db_drop_connect m) a) (\<lambda>d.
     t_add T d x))))))"

subsection \<open>CSPDarkBasicBlock\<close>

text \<open>
  A name that a function neither takes as a parameter nor assigns is looked up in the
  module's globals (and then in the builtins, which hold no \<open>bottle_ratio\<close>). The globals of
  residual.py are what it imports and what it defines: modules, classes and functions.
\<close>

datatype pyval = Number real | PyModule | PyClass | PyFunction

definition module_globals :: "(string \<times> pyval) list" where
  "module_globals =
     [(''math'', PyModule), (''torch'', PyModule), (''nn'', PyModule), (''partial'', PyClass),
      (''ABN'', PyClass), (''activation_from_name'', PyFunction), (''BlurPool'', PyClass),
      (''FastGlobalAvgPool2d'', PyClass), (''make_divisible'', PyFunction),
      (''SpaceToDepth'', PyClass), (''conv3x3'', PyFunction), (''conv1x1'', PyFunction),
      (''SEModule'', PyClass), (''ECAModule'', PyClass), (''SSEModule'', PyClass),
      (''SCSEModule'', PyClass), (''get_attn'', PyFunction),
      (''DepthwiseSeparableConv'', PyClass), (''InvertedResidual'', PyClass),
      (''DropConnect'', PyClass), (''BasicBlock'', PyClass), (''Bottleneck'', PyClass),
      (''TBasicBlock'', PyClass), (''TBottleneck'', PyClass), (''DarkBasicBlock'', PyClass),
      (''CSPDarkBasicBlock'', PyClass), (''SimpleBottleneck'', PyClass),
      (''SimplePreActBottleneck'', PyClass), (''SimpleStage'', PyClass),
      (''CrossStage'', PyClass)]"

definition load_global :: "string \<Rightarrow> error + pyval" where
  "load_global name =
     (case map_of module_globals name of None \<Rightarrow> Inl (NameError name) | Some v \<Rightarrow> Inr v)"

text \<open>The right operand of \<open>in_channels * ...\<close>: a number, or the product raises.\<close>

definition as_number :: "pyval \<Rightarrow> error + real" where
  "as_number v = (case v of Number r \<Rightarrow> Inr r | _ \<Rightarrow> Inl TypeError)"

record CSPDarkBasicBlock =
  cspd_conv1 :: Conv
  cspd_bn1 :: ABN
  cspd_conv2 :: Conv
  cspd_bn2 :: ABN
  cspd_attention :: "attn_module or_Identity"
  cspd_drop_connect :: "DropConnect or_Identity"

definition CSPDarkBasicBlock_init ::
  "int \<Rightarrow> int \<Rightarrow> string option \<Rightarrow> string \<Rightarrow> real \<Rightarrow> error + CSPDarkBasicBlock" where
  "CSPDarkBasicBlock_init in_channels out_channels attn_type norm_act keep_prob =
     bindE (load_global ''bottle_ratio'') (\<lambda>bottle_ratio.
     bindE (as_number bottle_ratio) (\<lambda>bottle_ratio.
     let mid_channels = py_int (of_int in_channels * bottle_ratio) in
     bindE (get_attn attn_type) (\<lambda>cls. Inr
       \<lparr>cspd_conv1 = conv1x1 in_channels mid_channels 1 False,
        cspd_bn1 = \<lparr>abn_num_features = mid_channels, abn_activation = norm_act\<rparr>,
        cspd_conv2 = conv3x3 mid_channels out_channels 1 1 1 False,
        cspd_bn2 = \<lparr>abn_num_features = out_channels, abn_activation = ''identity''\<rparr>,
        cspd_attention = attn_construct cls out_channels (out_channels div 4) ''relu'',
        cspd_drop_connect = make_drop_connect keep_prob\<rparr>)))"

text \<open>Unpacking a tuple into two or four names raises unless it has as many items.\<close>

definition unpack2 :: "'a list \<Rightarrow> error + 'a \<times> 'a" where
  "unpack2 xs = (case xs of [a, b] \<Rightarrow> Inr (a, b) | _ \<Rightarrow> Inl ValueError)"

definition unpack4 :: "'a list \<Rightarrow> error + 'a \<times> 'a \<times> 'a \<times> 'a" where
  "unpack4 xs = (case xs of [a, b, c, d] \<Rightarrow> Inr (a, b, c, d) | _ \<Rightarrow> Inl ValueError)"

definition CSPDarkBasicBlock_forward :: "'t torch \<Rightarrow> CSPDarkBasicBlock \<Rightarrow> 't \<Rightarrow> error + 't" where
  "CSPDarkBasicBlock_forward T m x =
     bindE (unpack2 (torch_chunk T x 2)) (\<lambda>(x1, x2).
     bindE (nn_Conv2d T (cspd_conv1 m) x) (\<lambda>out.
     bindE (norm_forward T (cspd_bn1 m) out) (\<lambda>out.
     bindE (nn_Conv2d T (cspd_conv2 m) out) (\<lambda>out.
     bindE (norm_forward T (cspd_bn2 m) out) (\<lambda>out.
     bindE (attn_forward T (cspd_attention m) out) (\<lambda>out.
     bindE (drop_connect_forward T (cspd_drop_connect m) out) (\<lambda>out.
     t_add T out x)))))))"

subsection \<open>SimpleBottleneck and SimplePreActBottleneck\<close>

record SimpleBottleneck =
  sb_conv1 :: Conv
  sb_bn1 :: ABN
  sb_conv2 :: Conv
  sb_bn2 :: ABN
  sb_conv3 :: Conv
  sb_bn3 :: ABN
  sb_has_residual :: bool

text \<open>\<open>groups_width\<close> is an integer or \<open>None\<close>; \<open>None\<close> and 0 both count as false.\<close>

definition SimpleBottleneck_init ::
  "int \<Rightarrow> int \<Rightarrow> int \<Rightarrow> int \<Rightarrow> int \<Rightarrow> int option \<Rightarrow> string \<Rightarrow> real \<Rightarrow> SimpleBottleneck" where
  "SimpleBottleneck_init in_chs mid_chs out_chs stride groups groups_width norm_act keep_prob =
     (let groups = (case groups_width of
                      None \<Rightarrow> groups
                    | Some w \<Rightarrow> if w \<noteq> 0 then mid_chs div w else groups)
      in \<lparr>sb_conv1 = conv1x1 in_chs mid_chs 1 False,
          sb_bn1 = \<lparr>abn_num_features = mid_chs, abn_activation = norm_act\<rparr>,
          sb_conv2 = conv3x3 mid_chs mid_chs stride groups 1 False,
          sb_bn2 = \<lparr>abn_num_features = mid_chs, abn_activation = norm_act\<rparr>,
          sb_conv3 = conv1x1 mid_chs out_chs 1 False,
          sb_bn3 = \<lparr>abn_num_features = out_chs, abn_activation = ''identity''\<rparr>,
          sb_has_residual = (in_chs = out_chs \<and> stride = 1)\<rparr>)"

definition SimpleBottleneck_forward :: "'t torch \<Rightarrow> SimpleBottleneck \<Rightarrow> 't \<Rightarrow> error + 't" where
  "SimpleBottleneck_forward T m x =
     bindE (nn_Conv2d T (sb_conv1 m) x) (\<lambda>out.
     bindE (norm_forward T (sb_bn1 m) out) (\<lambda>out.
     bindE (nn_Conv2d T (sb_conv2 m) out) (\<lambda>out.
     bindE (norm_forward T (sb_bn2 m) out) (\<lambda>out.
     bindE (nn_Conv2d T (sb_conv3 m) out) (\<lambda>out.
     if sb_has_residual m
     then bindE (norm_forward T (sb_bn3 m) out) (\<lambda>b. t_add T b x)
     else norm_forward T (sb_bn3 m) out)))))"

record SimplePreActBottleneck =
  pa_bn1 :: ABN
  pa_conv1 :: Conv
  pa_bn2 :: ABN
  pa_conv2 :: Conv
  pa_bn3 :: ABN
  pa_conv3 :: Conv
  pa_has_residual :: bool

definition SimplePreActBottleneck_init ::
  "int \<Rightarrow> int \<Rightarrow> int \<Rightarrow> int \<Rightarrow> string \<Rightarrow> int \<Rightarrow> int option \<Rightarrow> SimplePreActBottleneck" where
  "SimplePreActBottleneck_init in_chs mid_chs out_chs stride norm_act groups groups_width =
     (let groups = (case groups_width of
                      None \<Rightarrow> groups
                    | Some w \<Rightarrow> if w \<noteq> 0 then mid_chs div w else groups)
      in \<lparr>pa_bn1 = \<lparr>abn_num_features = in_chs, abn_activation = norm_act\<rparr>,
          pa_conv1 = conv1x1 in_chs mid_chs 1 False,
          pa_bn2 = \<lparr>abn_num_features = mid_chs, abn_activation = norm_act\<rparr>,
          pa_conv2 = conv3x3 mid_chs mid_chs stride groups 1 False,
          pa_bn3 = \<lparr>abn_num_features = mid_chs, abn_activation = norm_act\<rparr>,
          pa_conv3 = conv1x1 mid_chs out_chs 1 False,
          pa_has_residual = (in_chs = out_chs \<and> stride = 1)\<rparr>)"

definition SimplePreActBottleneck_forward ::
  "'t torch \<Rightarrow> SimplePreActBottleneck \<Rightarrow> 't \<Rightarrow> error + 't" where
  "SimplePreActBottleneck_forward T m x =
     bindE (norm_forward T (pa_bn1 m) x) (\<lambda>out.
     bindE (nn_Conv2d T (pa_conv1 m) out) (\<lambda>out.
     bindE (norm_forward T (pa_bn2 m) out) (\<lambda>out.
     bindE (nn_Conv2d T (pa_conv2 m) out) (\<lambda>out.
     bindE (norm_forward T (pa_bn3 m) out) (\<lambda>out.
     if pa_has_residual m
     then bindE (nn_Conv2d T (pa_conv3 m) out) (\<lambda>c. t_add T c x)
     else nn_Conv2d T (pa_conv3 m) out)))))"

subsection \<open>CrossStage\<close>

text \<open>
  \<open>block_fn\<close> is called with the keywords \<open>in_chs\<close>, \<open>mid_chs\<close>, \<open>out_chs\<close>, \<open>stride\<close>,
  \<open>norm_layer\<close> and \<open>norm_act\<close>: of the classes of the file, the two below take them
  (\<open>SimpleBottleneck\<close> is the default). Of \<open>**block_kwargs\<close> the model keeps \<open>groups\<close> and
  \<open>groups_width\<close>, which both classes take.
\<close>

datatype block_fn = SimpleBottleneck_fn | SimplePreActBottleneck_fn

datatype block = SB SimpleBottleneck | PA SimplePreActBottleneck

definition call_block_fn ::
  "block_fn \<Rightarrow> int \<Rightarrow> int \<Rightarrow> int \<Rightarrow> int \<Rightarrow> string \<Rightarrow> int \<Rightarrow> int option \<Rightarrow> block" where
  "call_block_fn f in_chs mid_chs out_chs stride norm_act groups groups_width =
     (case f of
        SimpleBottleneck_fn \<Rightarrow>
          SB (SimpleBottleneck_init in_chs mid_chs out_chs stride groups groups_width norm_act 1)
      | SimplePreActBottleneck_fn \<Rightarrow>
          PA (SimplePreActBottleneck_init in_chs mid_chs out_chs stride norm_act groups
                groups_width))"

definition block_forward :: "'t torch \<Rightarrow> block \<Rightarrow> 't \<Rightarrow> error + 't" where
  "block_forward T b x =
     (case b of
        SB m \<Rightarrow> SimpleBottleneck_forward T m x
      | PA m \<Rightarrow> SimplePreActBottleneck_forward T m x)"

record CrossStage =
  cs_first_layer :: block
  cs_blocks :: "block list"
  cs_x2_transition :: "(Conv \<times> ABN) or_Identity"
  cs_csp_block_ratio :: real

definition CrossStage_init ::
  "int \<Rightarrow> int \<Rightarrow> int \<Rightarrow> int \<Rightarrow> block_fn \<Rightarrow> string \<Rightarrow> real \<Rightarrow> bool \<Rightarrow> int \<Rightarrow> int option
     \<Rightarrow> CrossStage" where
  "CrossStage_init in_chs out_chs num_blocks stride block_fn norm_act csp_block_ratio
      x2_transition groups groups_width =
     (let first_layer =
            call_block_fn block_fn in_chs out_chs out_chs stride norm_act groups groups_width;
          block_chs = py_int (csp_block_ratio * of_int out_chs)
      in \<lparr>cs_first_layer = first_layer,
          cs_blocks =
            replicate (nat (num_blocks - 1))
              (call_block_fn block_fn block_chs block_chs block_chs 1 norm_act groups
                 groups_width),
          cs_x2_transition =
            (if x2_transition
             then Module (conv1x1 block_chs block_chs 1 False,
                          \<lparr>abn_num_features = block_chs, abn_activation = ''identity''\<rparr>)
             else Identity),
          cs_csp_block_ratio = csp_block_ratio\<rparr>)"

definition transition_forward :: "'t torch \<Rightarrow> Conv \<times> ABN \<Rightarrow> 't \<Rightarrow> error + 't" where
  "transition_forward T cn x = bindE (nn_Conv2d T (fst cn) x) (norm_forward T (snd cn))"

text \<open>
  \<open>x1\<close> and \<open>x2\<close> are local variables that only the two branches bind: \<open>None\<close> stands
  for a name that is still unbound, and reading it raises.
\<close>

definition local_var :: "string \<Rightarrow> 'a option \<Rightarrow> error + 'a" where
  "local_var name v = (case v of None \<Rightarrow> Inl (UnboundLocalError name) | Some a \<Rightarrow> Inr a)"

definition CrossStage_forward :: "'t torch \<Rightarrow> CrossStage \<Rightarrow> 't \<Rightarrow> error + 't" where
  "CrossStage_forward T m x =
     bindE (block_forward T (cs_first_layer m) x) (\<lambda>x.
     bindE (if cs_csp_block_ratio m = 0.5
            then bindE (unpack2 (torch_chunk T x 2)) (\<lambda>(x1, x2). Inr (Some x1, Some x2))
            else if cs_csp_block_ratio m = 0.75
            then bindE (unpack4 (torch_chunk T x 4)) (\<lambda>(x1, x2, x3, x4).
                 bindE (torch_cat T [x2, x3, x4]) (\<lambda>x2. Inr (Some x1, Some x2)))
            else Inr (None, None)) (\<lambda>(x1, x2).
     bindE (local_var ''x2'' x2) (\<lambda>x2.
     bindE (Sequential (block_forward T) (cs_blocks m) x2) (\<lambda>x2.
     bindE (forward_or_Identity (transition_forward T) (cs_x2_transition m) x2) (\<lambda>x2.
     bindE (local_var ''x1'' x1) (\<lambda>x1.
     torch_cat T [x1, x2]))))))"

subsection \<open>A symbolic tensor engine\<close>

text \<open>
  Tensors as terms: every operation returns the term that names it and its operands, so
  the value of a forward pass is its data-flow graph. It never raises. \<open>size(0)\<close> of every
  term is the batch size the engine is built with.
\<close>

datatype sym =
    Input string
  | Conv2d Conv sym
  | Conv1d Conv sym
  | Norm ABN sym
  | Act string sym
  | Blur int sym
  | Pool sym
  | Add sym sym
  | Mul sym sym
  | Div sym real
  | RAdd real sym
  | Sigmoid sym
  | View sym "int list"
  | ExpandAs sym sym
  | Cat "sym list"
  | Chunk nat nat sym
  | Rand "int list"
  | Floor sym

definition sym_torch :: "int \<Rightarrow> sym torch" where
  "sym_torch batch_size =
     \<lparr>nn_Conv2d = (\<lambda>c x. Inr (Conv2d c x)),
      nn_Conv1d = (\<lambda>c x. Inr (Conv1d c x)),
      norm_forward = (\<lambda>n x. Inr (Norm n x)),
      activation_forward = (\<lambda>a x. Inr (Act a x)),
      BlurPool_forward = (\<lambda>c x. Inr (Blur c x)),
      FastGlobalAvgPool2d_forward = (\<lambda>x. Inr (Pool x)),
      t_add = (\<lambda>a b. Inr (Add a b)),
      t_mul = (\<lambda>a b. Inr (Mul a b)),
      t_div = Div,
      t_radd = RAdd,
      t_sigmoid = Sigmoid,
      t_size0 = (\<lambda>x. batch_size),
      t_view = (\<lambda>x shape. Inr (View x shape)),
      t_expand_as = (\<lambda>a b. Inr (ExpandAs a b)),
      torch_cat = (\<lambda>ts. Inr (Cat ts)),
      torch_chunk = (\<lambda>x chunks. map (\<lambda>i. Chunk chunks i x) [0 ..< chunks]),
      torch_rand = Rand,
      torch_floor = Floor\<rparr>"

subsection \<open>Letter case, as the specification words it\<close>

text \<open>
  \<open>s\<close> is the lower-case name \<open>name\<close> in some letter case: letter by letter it is the
  letter of \<open>name\<close> or its capital, whose code is 32 less.
\<close>

definition is_case_variant :: "string \<Rightarrow> string \<Rightarrow> bool" where
  "is_case_variant s name =
     list_all2 (\<lambda>c d. c = d \<or> (of_char c :: nat) + 32 = of_char d) s name"

subsection \<open>torch along the channel axis\<close>

text \<open>
  For the claims about channel counts a tensor is the list of its channel slices (axis 1);
  what a slice holds is left open. \<open>torch.chunk(x, chunks, dim=1)\<close> cuts the list into
  pieces of \<open>ceil(C / chunks)\<close> channels, the last piece shorter, so that fewer than
  \<open>chunks\<close> pieces can come back; a tensor without channels gives \<open>chunks\<close> empty pieces.
  \<open>torch.cat(ts, dim=1)\<close> appends the lists.
\<close>

definition split_channels :: "nat \<Rightarrow> 'c list \<Rightarrow> 'c list list" where
  "split_channels split_size x =
     map (\<lambda>i. take split_size (drop (i * split_size) x))
       [0 ..< (length x + split_size - 1) div split_size]"

definition chunk_channels :: "'c list \<Rightarrow> nat \<Rightarrow> 'c list list" where
  "chunk_channels x chunks =
     (let split_size = (length x + chunks - 1) div chunks
      in if split_size = 0 then replicate chunks [] else split_channels split_size x)"

text \<open>
  What torch guarantees about channel counts, for an engine over such lists: a convolution
  that returns was given \<open>in_channels\<close> channels and returns \<open>out_channels\<close>; a
  normalisation that returns keeps the count; so does the sum of two tensors with equally
  many channels; \<open>torch.chunk\<close> is as above, and \<open>torch.cat\<close>, when it returns, appends.
\<close>

definition channel_laws :: "'c list torch \<Rightarrow> bool" where
  "channel_laws T \<longleftrightarrow>
     (\<forall>c a b. nn_Conv2d T c a = Inr b \<longrightarrow>
        int (length a) = c_in_channels c \<and> int (length b) = c_out_channels c) \<and>
     (\<forall>n a b. norm_forward T n a = Inr b \<longrightarrow> length b = length a) \<and>
     (\<forall>a b r. t_add T a b = Inr r \<longrightarrow> length a = length b \<longrightarrow> length r = length a) \<and>
     torch_chunk T = chunk_channels \<and>
     (\<forall>ts r. torch_cat T ts = Inr r \<longrightarrow> r = concat ts)"

text \<open>
  A normalisation layer holds one weight per feature, so it returns only on a tensor with
  as many channels as it was built for.
\<close>

definition norm_feature_law :: "'c list torch \<Rightarrow> bool" where
  "norm_feature_law T \<longleftrightarrow>
     (\<forall>n a b. norm_forward T n a = Inr b \<longrightarrow> int (length a) = abn_num_features n)"

text \<open>
  An engine over lists of numbers for the examples: one number per channel. A convolution
  checks the channel counts and fills every output channel with one more than the sum of its
  input; a normalisation checks that it was built for as many features as its input has
  channels and returns its input; a sum adds channel by channel.
\<close>

definition channel_torch :: "nat list torch" where
  "channel_torch =
     \<lparr>nn_Conv2d = (\<lambda>c x. if int (length x) = c_in_channels c \<and> 0 \<le> c_out_channels c
                          then Inr (replicate (nat (c_out_channels c)) (Suc (sum_list x)))
                          else Inl TorchError),
      nn_Conv1d = (\<lambda>c x. Inl TorchError),
      norm_forward = (\<lambda>n x. if int (length x) = abn_num_features n then Inr x
                             else Inl TorchError),
      activation_forward = (\<lambda>a x. Inr x),
      BlurPool_forward = (\<lambda>c x. Inr x),
      FastGlobalAvgPool2d_forward = (\<lambda>x. Inr x),
      t_add = (\<lambda>a b. if length a = length b then Inr (map2 (+) a b) else Inl TorchError),
      t_mul = (\<lambda>a b. if length a = length b then Inr (map2 (*) a b) else Inl TorchError),
      t_div = (\<lambda>x k. x),
      t_radd = (\<lambda>k x. x),
      t_sigmoid = (\<lambda>x. x),
      t_size0 = (\<lambda>x. 1),
      t_view = (\<lambda>x shape. Inr x),
      t_expand_as = (\<lambda>a b. Inr a),
      torch_cat = (\<lambda>ts. Inr (concat ts)),
      torch_chunk = chunk_channels,
      torch_rand = (\<lambda>shape. []),
      torch_floor = (\<lambda>x. x)\<rparr>"

subsection \<open>torch arithmetic on a batch\<close>

text \<open>
  For the arithmetic of \<open>DropConnect\<close> a tensor of shape \<open>[B, C, H, W]\<close> is a nested list
  of real numbers, batch first. \<open>column us\<close> is the tensor of shape \<open>[B, 1, 1, 1]\<close> that
  holds one number per batch element. Dividing by a number, adding a number and \<open>floor\<close>
  work element by element; multiplying by a column multiplies every element of sample \<open>i\<close>
  by the \<open>i\<close>-th number (broadcasting).
\<close>

type_synonym tensor4 = "real list list list list"

definition map4 :: "(real \<Rightarrow> real) \<Rightarrow> tensor4 \<Rightarrow> tensor4" where
  "map4 f x = map (map (map (map f))) x"

definition column :: "real list \<Rightarrow> tensor4" where
  "column us = map (\<lambda>u. [[[u]]]) us"

definition scale_sample :: "real \<Rightarrow> real list list list \<Rightarrow> real list list list" where
  "scale_sample f s = map (map (map (\<lambda>v. v * f))) s"

definition shape4 :: "tensor4 \<Rightarrow> nat list list list" where
  "shape4 x = map (map (map length)) x"

definition batch_arithmetic :: "tensor4 torch \<Rightarrow> bool" where
  "batch_arithmetic T \<longleftrightarrow>
     (\<forall>x. t_size0 T x = int (length x)) \<and>
     (\<forall>x k. t_div T x k = map4 (\<lambda>v. v / k) x) \<and>
     (\<forall>x k. t_radd T k x = map4 (\<lambda>v. k + v) x) \<and>
     (\<forall>x. torch_floor T x = map4 (\<lambda>v. of_int \<lfloor>v\<rfloor>) x) \<and>
     (\<forall>x fs. length fs = length x \<longrightarrow>
        t_mul T x (column fs) = Inr (map2 scale_sample fs x))"

text \<open>
  An engine over such tensors for the examples. \<open>us\<close> are the numbers \<open>torch.rand\<close> draws
  during the call; the layers are not part of it.
\<close>

definition batch_torch :: "real list \<Rightarrow> tensor4 torch" where
  "batch_torch us =
     \<lparr>nn_Conv2d = (\<lambda>c x. Inl TorchError),
      nn_Conv1d = (\<lambda>c x. Inl TorchError),
      norm_forward = (\<lambda>n x. Inl TorchError),
      activation_forward = (\<lambda>a x. Inl TorchError),
      BlurPool_forward = (\<lambda>c x. Inl TorchError),
      FastGlobalAvgPool2d_forward = (\<lambda>x. Inl TorchError),
      t_add = (\<lambda>a b. Inl TorchError),
      t_mul = (\<lambda>x b. if length b = length x
                       then Inr (map2 scale_sample (map (\<lambda>t. hd (hd (hd t))) b) x)
                       else Inl TorchError),
      t_div = (\<lambda>x k. map4 (\<lambda>v. v / k) x),
      t_radd = (\<lambda>k x. map4 (\<lambda>v. k + v) x),
      t_sigmoid = (\<lambda>x. x),
      t_size0 = (\<lambda>x. int (length x)),
      t_view = (\<lambda>x shape. Inl TorchError),
      t_expand_as = (\<lambda>a b. Inl TorchError),
      torch_cat = (\<lambda>ts. Inl TorchError),
      torch_chunk = (\<lambda>x chunks. []),
      torch_rand = (\<lambda>shape. column us),
      torch_floor = (\<lambda>x. map4 (\<lambda>v. of_int \<lfloor>v\<rfloor>) x)\<rparr>"

section \<open>Verified properties\<close>

subsection \<open>Sequencing\<close>

lemma bindE_Inl [simp]: "bindE (Inl e) f = Inl e"
  by (simp add: bindE_def)

lemma bindE_Inr [simp]: "bindE (Inr v) f = f v"
  by (simp add: bindE_def)

lemma bindE_assoc: "bindE (bindE m f) g = bindE m (\<lambda>v. bindE (f v) g)"
  by (cases m) simp_all

lemma bindE_return [simp]: "bindE m Inr = m"
  by (cases m) simp_all

lemma bindE_eq_Inr_iff: "bindE m f = Inr y \<longleftrightarrow> (\<exists>v. m = Inr v \<and> f v = Inr y)"
  by (cases m) simp_all

subsection \<open>The attention lookup\<close>

lemma of_char_lower_char:
  "(of_char (lower_char c) :: nat) =
     (if 65 \<le> (of_char c :: nat) \<and> (of_char c :: nat) \<le> 90 then of_char c + 32 else of_char c)"
  by (simp add: lower_char_def Let_def)

text \<open>A lower-case letter is the lowering of itself and of its capital, and of nothing else.\<close>

lemma lower_char_eq_iff:
  assumes "97 \<le> (of_char d :: nat)" "(of_char d :: nat) \<le> 122"
  shows "lower_char c = d \<longleftrightarrow> c = d \<or> (of_char c :: nat) + 32 = of_char d"
proof -
  have "lower_char c = d \<longleftrightarrow> (of_char (lower_char c) :: nat) = of_char d"
    by simp
  also have "\<dots> \<longleftrightarrow> (of_char c :: nat) = of_char d \<or> (of_char c :: nat) + 32 = of_char d"
    using assms unfolding of_char_lower_char by auto
  also have "\<dots> \<longleftrightarrow> c = d \<or> (of_char c :: nat) + 32 = of_char d"
    by simp
  finally show ?thesis .
qed

lemma lower_eq_iff:
  assumes "\<forall>d \<in> set name. 97 \<le> (of_char d :: nat) \<and> (of_char d :: nat) \<le> 122"
  shows "lower s = name \<longleftrightarrow> is_case_variant s name"
  using assms
proof (induction name arbitrary: s)
  case Nil
  then show ?case by (simp add: lower_def is_case_variant_def)
next
  case (Cons d ds)
  show ?case
  proof (cases s)
    case Nil
    then show ?thesis by (simp add: lower_def is_case_variant_def)
  next
    case (Cons c cs)
    have "lower_char c = d \<longleftrightarrow> c = d \<or> (of_char c :: nat) + 32 = of_char d"
      using Cons.prems by (intro lower_char_eq_iff) simp_all
    moreover have "lower cs = ds \<longleftrightarrow> is_case_variant cs ds"
      using Cons.IH Cons.prems by simp
    ultimately show ?thesis
      using Cons by (simp add: lower_def is_case_variant_def)
  qed
qed

lemma names_lowercase:
  "\<forall>d \<in> set ''se''. 97 \<le> (of_char d :: nat) \<and> (of_char d :: nat) \<le> 122"
  "\<forall>d \<in> set ''eca''. 97 \<le> (of_char d :: nat) \<and> (of_char d :: nat) \<le> 122"
  "\<forall>d \<in> set ''sse''. 97 \<le> (of_char d :: nat) \<and> (of_char d :: nat) \<le> 122"
  "\<forall>d \<in> set ''scse''. 97 \<le> (of_char d :: nat) \<and> (of_char d :: nat) \<le> 122"
  by simp_all

lemma get_attn_Some:
  "get_attn (Some s) =
     (if lower s = ''se'' then Inr SEModule_class
      else if lower s = ''eca'' then Inr ECAModule_class
      else if lower s = ''sse'' then Inr SSEModule_class
      else if lower s = ''scse'' then Inr SCSEModule_class
      else Inl (KeyError (lower s)))"
  by (simp add: get_attn_def ATT_TO_MODULE_def)

text \<open>
  Claim C2. \<open>get_attn\<close> returns \<open>SEModule\<close>, \<open>ECAModule\<close>, \<open>SSEModule\<close>, \<open>SCSEModule\<close> for
  the names se, eca, sse, scse written in any letter case; for \<open>None\<close> it returns
  \<open>nn.Identity\<close>, and the module built from it returns its input; for every other string
  it raises \<open>KeyError\<close> (with the lowered string as the missing key).
\<close>

theorem get_attn_lookup:
  "(is_case_variant s ''se'' \<longrightarrow> get_attn (Some s) = Inr SEModule_class) \<and>
   (is_case_variant s ''eca'' \<longrightarrow> get_attn (Some s) = Inr ECAModule_class) \<and>
   (is_case_variant s ''sse'' \<longrightarrow> get_attn (Some s) = Inr SSEModule_class) \<and>
   (is_case_variant s ''scse'' \<longrightarrow> get_attn (Some s) = Inr SCSEModule_class) \<and>
   get_attn None = Inr Identity_class \<and>
   attn_forward T (attn_construct Identity_class channels reduction_channels norm_act) x = Inr x \<and>
   (\<not> is_case_variant s ''se'' \<and> \<not> is_case_variant s ''eca'' \<and>
    \<not> is_case_variant s ''sse'' \<and> \<not> is_case_variant s ''scse''
      \<longrightarrow> get_attn (Some s) = Inl (KeyError (lower s)))"
proof -
  have none: "get_attn None = Inr Identity_class"
    by (simp add: get_attn_def)
  have ident:
    "attn_forward T (attn_construct Identity_class channels reduction_channels norm_act) x = Inr x"
    by (simp add: attn_forward_def attn_construct_def forward_or_Identity_def)
  show ?thesis
    unfolding lower_eq_iff [OF names_lowercase(1), symmetric]
      lower_eq_iff [OF names_lowercase(2), symmetric]
      lower_eq_iff [OF names_lowercase(3), symmetric]
      lower_eq_iff [OF names_lowercase(4), symmetric]
    using none ident by (simp add: get_attn_Some)
qed

theorem get_attn_lookup_witness:
  "is_case_variant ''sCsE'' ''scse'' \<and> get_attn (Some ''sCsE'') = Inr SCSEModule_class \<and>
   is_case_variant ''SE'' ''se'' \<and> get_attn (Some ''SE'') = Inr SEModule_class \<and>
   is_case_variant ''Eca'' ''eca'' \<and> get_attn (Some ''Eca'') = Inr ECAModule_class \<and>
   is_case_variant ''ssE'' ''sse'' \<and> get_attn (Some ''ssE'') = Inr SSEModule_class \<and>
   \<not> is_case_variant ''CBAM'' ''se'' \<and> \<not> is_case_variant ''CBAM'' ''eca'' \<and>
   \<not> is_case_variant ''CBAM'' ''sse'' \<and> \<not> is_case_variant ''CBAM'' ''scse'' \<and>
   get_attn (Some ''CBAM'') = Inl (KeyError ''cbam'')"
proof -
  have v: "is_case_variant ''sCsE'' ''scse''" "is_case_variant ''SE'' ''se''"
    "is_case_variant ''Eca'' ''eca''" "is_case_variant ''ssE'' ''sse''"
    by (simp_all add: is_case_variant_def)
  have n: "\<not> is_case_variant ''CBAM'' ''se''" "\<not> is_case_variant ''CBAM'' ''eca''"
    "\<not> is_case_variant ''CBAM'' ''sse''" "\<not> is_case_variant ''CBAM'' ''scse''"
    by (simp_all add: is_case_variant_def)
  have l: "lower ''CBAM'' = ''cbam''"
    by code_simp
  show ?thesis
    using v n l get_attn_lookup [of "''sCsE''"] get_attn_lookup [of "''SE''"]
      get_attn_lookup [of "''Eca''"] get_attn_lookup [of "''ssE''"] get_attn_lookup [of "''CBAM''"]
    by metis
qed

subsection \<open>Stochastic depth at inference\<close>

text \<open>
  Claim C3. With the training flag cleared, \<open>DropConnect.forward\<close> returns its input as it
  is, for every keep-probability, every input and every tensor engine.
\<close>

theorem DropConnect_forward_eval:
  "DropConnect_forward T \<lparr>dc_keep_prob = keep_prob, dc_training = False\<rparr> x = Inr x"
  by (simp add: DropConnect_forward_def)

subsection \<open>CSPDarkBasicBlock cannot be constructed\<close>

lemma load_global_bottle_ratio: "load_global ''bottle_ratio'' = Inl (NameError ''bottle_ratio'')"
  by (simp add: load_global_def module_globals_def)

text \<open>
  Claim C9. The constructor of \<open>CSPDarkBasicBlock\<close> raises \<open>NameError\<close> for the name
  \<open>bottle_ratio\<close> whatever its arguments: no block is ever built.
\<close>

theorem CSPDarkBasicBlock_init_NameError:
  "CSPDarkBasicBlock_init in_channels out_channels attn_type norm_act keep_prob =
     Inl (NameError ''bottle_ratio'')"
  by (simp add: CSPDarkBasicBlock_init_def load_global_bottle_ratio)

subsection \<open>CrossStage with another split ratio\<close>

text \<open>
  Claim C10. When \<open>csp_block_ratio\<close> is neither 0.5 nor 0.75, \<open>CrossStage.forward\<close> never
  returns a tensor: once the first layer has returned, neither branch binds \<open>x1\<close> and
  \<open>x2\<close>, and reading \<open>x2\<close> raises \<open>UnboundLocalError\<close>.
\<close>

theorem CrossStage_forward_other_ratio:
  assumes "cs_csp_block_ratio m \<noteq> 0.5" and "cs_csp_block_ratio m \<noteq> 0.75"
  shows "(\<forall>y. CrossStage_forward T m x \<noteq> Inr y) \<and>
         (\<forall>x'. block_forward T (cs_first_layer m) x = Inr x' \<longrightarrow>
            CrossStage_forward T m x = Inl (UnboundLocalError ''x2''))"
proof -
  have "CrossStage_forward T m x =
          bindE (block_forward T (cs_first_layer m) x) (\<lambda>x'. Inl (UnboundLocalError ''x2''))"
    using assms by (simp add: CrossStage_forward_def local_var_def)
  then show ?thesis
    by (cases "block_forward T (cs_first_layer m) x") simp_all
qed

theorem CrossStage_forward_other_ratio_witness:
  "cs_csp_block_ratio
     (CrossStage_init 64 128 3 2 SimpleBottleneck_fn ''leaky_relu'' 0.25 True 1 None) \<noteq> 0.5 \<and>
   cs_csp_block_ratio
     (CrossStage_init 64 128 3 2 SimpleBottleneck_fn ''leaky_relu'' 0.25 True 1 None) \<noteq> 0.75 \<and>
   CrossStage_forward (sym_torch 2)
     (CrossStage_init 64 128 3 2 SimpleBottleneck_fn ''leaky_relu'' 0.25 True 1 None) (Input ''x'')
     = Inl (UnboundLocalError ''x2'')"
proof -
  let ?m = "CrossStage_init 64 128 3 2 SimpleBottleneck_fn ''leaky_relu'' 0.25 True 1 None"
  have r: "cs_csp_block_ratio ?m \<noteq> 0.5" "cs_csp_block_ratio ?m \<noteq> 0.75"
    by (simp_all add: CrossStage_init_def Let_def)
  have "\<exists>x'. block_forward (sym_torch 2) (cs_first_layer ?m) (Input ''x'') = Inr x'"
    by (simp add: CrossStage_init_def Let_def call_block_fn_def block_forward_def
        SimpleBottleneck_forward_def SimpleBottleneck_init_def sym_torch_def)
  with CrossStage_forward_other_ratio [OF r, of "sym_torch 2" "Input ''x''"] r
  show ?thesis by blast
qed

subsection \<open>Blocks built for the examples\<close>

text \<open>
  The constructors evaluated at the arguments the examples below use. Any rounding function
  can stand for \<open>make_divisible\<close>; here it rounds up to a multiple of 8.
\<close>

lemma InvertedResidual_init_example:
  "InvertedResidual_init (\<lambda>v. 8 * \<lceil>v / 8\<rceil>) 16 16 3 1 1 None 6 1 False ''relu'' = Inr
     \<lparr>ir_has_residual = True, ir_has_expansion = True,
      ir_conv_pw = Some (conv1x1 16 96 1 False),
      ir_bn1 = Some \<lparr>abn_num_features = 96, abn_activation = ''relu''\<rparr>,
      ir_conv_dw = \<lparr>c_in_channels = 96, c_out_channels = 96, c_kernel_size = 3, c_stride = 1,
         c_padding = 1, c_groups = 96, c_bias = False, c_dilation = 1\<rparr>,
      ir_bn2 = \<lparr>abn_num_features = 96, abn_activation = ''relu''\<rparr>,
      ir_se = Identity,
      ir_conv_pw1 = conv1x1 96 16 1 False,
      ir_bn3 = \<lparr>abn_num_features = 16, abn_activation = ''identity''\<rparr>,
      ir_drop_connect = Identity\<rparr>"
  by (simp add: InvertedResidual_init_def get_attn_def attn_construct_def make_drop_connect_def)

lemma DarkBasicBlock_init_example:
  "DarkBasicBlock_init 64 64 0.5 None ''leaky_relu'' 1 = Inr
     \<lparr>db_bn1 = \<lparr>abn_num_features = 32, abn_activation = ''leaky_relu''\<rparr>,
      db_conv1 = conv1x1 64 32 1 False,
      db_bn2 = \<lparr>abn_num_features = 64, abn_activation = ''leaky_relu''\<rparr>,
      db_conv2 = conv3x3 32 64 1 32 1 False,
      db_attention = Identity,
      db_drop_connect = Identity\<rparr>"
  by (simp add: DarkBasicBlock_init_def get_attn_def attn_construct_def make_drop_connect_def
      py_int_def)

lemma InvertedResidual_init_example_noskip:
  "InvertedResidual_init (\<lambda>v. 8 * \<lceil>v / 8\<rceil>) 16 16 3 1 1 None 6 1 True ''relu'' = Inr
     \<lparr>ir_has_residual = False, ir_has_expansion = True,
      ir_conv_pw = Some (conv1x1 16 96 1 False),
      ir_bn1 = Some \<lparr>abn_num_features = 96, abn_activation = ''relu''\<rparr>,
      ir_conv_dw = \<lparr>c_in_channels = 96, c_out_channels = 96, c_kernel_size = 3, c_stride = 1,
         c_padding = 1, c_groups = 96, c_bias = False, c_dilation = 1\<rparr>,
      ir_bn2 = \<lparr>abn_num_features = 96, abn_activation = ''relu''\<rparr>,
      ir_se = Identity,
      ir_conv_pw1 = conv1x1 96 16 1 False,
      ir_bn3 = \<lparr>abn_num_features = 16, abn_activation = ''identity''\<rparr>,
      ir_drop_connect = Identity\<rparr>"
  by (simp add: InvertedResidual_init_def get_attn_def attn_construct_def make_drop_connect_def)

lemma BasicBlock_init_example:
  "BasicBlock_init 64 64 2 None 1 64 None 1 ''relu'' True 1 = Inr
     \<lparr>bb_conv1 = conv3x3 64 64 1 1 1 False,
      bb_bn1 = \<lparr>abn_num_features = 64, abn_activation = ''relu''\<rparr>,
      bb_conv2 = conv3x3 64 64 1 1 1 False,
      bb_bn2 = \<lparr>abn_num_features = 64, abn_activation = ''identity''\<rparr>,
      bb_se_module = Identity,
      bb_final_act = ''relu'',
      bb_downsample = None,
      bb_blurpool = Module 64,
      bb_antialias = True,
      bb_drop_connect = Identity\<rparr>"
  by (simp add: BasicBlock_init_def BasicBlock_expansion_def get_attn_def attn_construct_def
      make_drop_connect_def)

lemma Bottleneck_init_example:
  "Bottleneck_init 64 64 2 None 1 64 None 1 ''relu'' True 1 = Inr
     \<lparr>bt_conv1 = conv1x1 64 64 1 False,
      bt_bn1 = \<lparr>abn_num_features = 64, abn_activation = ''relu''\<rparr>,
      bt_conv2 = conv3x3 64 64 1 1 1 False,
      bt_bn2 = \<lparr>abn_num_features = 64, abn_activation = ''relu''\<rparr>,
      bt_conv3 = conv1x1 64 256 1 False,
      bt_bn3 = \<lparr>abn_num_features = 256, abn_activation = ''identity''\<rparr>,
      bt_se_module = Identity,
      bt_final_act = ''relu'',
      bt_downsample = None,
      bt_blurpool = Module 64,
      bt_antialias = True,
      bt_drop_connect = Identity\<rparr>"
  by (simp add: Bottleneck_init_def Bottleneck_expansion_def get_attn_def attn_construct_def
      make_drop_connect_def)

lemmas sym_eval =
  sym_torch_def attn_forward_def drop_connect_forward_def forward_or_Identity_def attribute_def


subsection \<open>DarkBasicBlock: the data path\<close>

text \<open>
  Claim C5. In \<open>DarkBasicBlock.forward\<close> the first convolution reads the input \<open>x\<close> itself:
  \<open>bn1(x)\<close> is called (if it raises, so does the block) but what it returns is used
  nowhere. The output is \<open>drop_connect(attention(conv2(bn2(conv1(x))))) + x\<close>, with no
  activation after the addition.
\<close>

theorem DarkBasicBlock_forward_dataflow:
  "(\<forall>n. norm_forward T (db_bn1 m) x = Inr n \<longrightarrow>
      DarkBasicBlock_forward T m x =
        bindE (nn_Conv2d T (db_conv1 m) x) (\<lambda>c1.
        bindE (norm_forward T (db_bn2 m) c1) (\<lambda>b2.
        bindE (nn_Conv2d T (db_conv2 m) b2) (\<lambda>c2.
        bindE (attn_forward T (db_attention m) c2) (\<lambda>a.
        bindE (drop_connect_forward T (db_drop_connect m) a) (\<lambda>d.
        t_add T d x)))))) \<and>
   (\<forall>e. norm_forward T (db_bn1 m) x = Inl e \<longrightarrow> DarkBasicBlock_forward T m x = Inl e)"
  by (simp add: DarkBasicBlock_forward_def)

text \<open>
  Two runs of a block built with the default \<open>bottle_ratio\<close> of 0.5: on the symbolic engine
  the data-flow graph holds no \<open>bn1\<close>; on the engine that counts channels \<open>bn1\<close>, built for
  32 features, is given the 64 channels of \<open>x\<close> and raises, and so does the block.
\<close>

lemma DarkBasicBlock_bn1_raises:
  "norm_forward channel_torch \<lparr>abn_num_features = 32, abn_activation = ''leaky_relu''\<rparr>
     (replicate 64 7) = Inl TorchError"
  by (simp add: channel_torch_def)

theorem DarkBasicBlock_forward_dataflow_witness:
  "bindE (DarkBasicBlock_init 64 64 0.5 None ''leaky_relu'' 1)
     (\<lambda>m. DarkBasicBlock_forward (sym_torch 2) m (Input ''x'')) =
   Inr (Add
     (Conv2d (conv3x3 32 64 1 32 1 False)
       (Norm \<lparr>abn_num_features = 64, abn_activation = ''leaky_relu''\<rparr>
         (Conv2d (conv1x1 64 32 1 False) (Input ''x''))))
     (Input ''x'')) \<and>
   bindE (DarkBasicBlock_init 64 64 0.5 None ''leaky_relu'' 1)
     (\<lambda>m. DarkBasicBlock_forward channel_torch m (replicate 64 7)) = Inl TorchError"
proof -
  define m where "m =
    \<lparr>db_bn1 = \<lparr>abn_num_features = 32, abn_activation = ''leaky_relu''\<rparr>,
     db_conv1 = conv1x1 64 32 1 False,
     db_bn2 = \<lparr>abn_num_features = 64, abn_activation = ''leaky_relu''\<rparr>,
     db_conv2 = conv3x3 32 64 1 32 1 False,
     db_attention = (Identity :: attn_module or_Identity),
     db_drop_connect = (Identity :: DropConnect or_Identity)\<rparr>"
  have bn1: "norm_forward (sym_torch 2) (db_bn1 m) (Input ''x'') =
      Inr (Norm \<lparr>abn_num_features = 32, abn_activation = ''leaky_relu''\<rparr> (Input ''x''))"
    by (simp add: sym_torch_def m_def)
  from DarkBasicBlock_forward_dataflow [of "sym_torch 2" m "Input ''x''"] bn1
  have "DarkBasicBlock_forward (sym_torch 2) m (Input ''x'') =
        bindE (nn_Conv2d (sym_torch 2) (db_conv1 m) (Input ''x'')) (\<lambda>c1.
        bindE (norm_forward (sym_torch 2) (db_bn2 m) c1) (\<lambda>b2.
        bindE (nn_Conv2d (sym_torch 2) (db_conv2 m) b2) (\<lambda>c2.
        bindE (attn_forward (sym_torch 2) (db_attention m) c2) (\<lambda>a.
        bindE (drop_connect_forward (sym_torch 2) (db_drop_connect m) a) (\<lambda>d.
        t_add (sym_torch 2) d (Input ''x''))))))"
    by blast
  then have returns: "DarkBasicBlock_forward (sym_torch 2) m (Input ''x'') =
      Inr (Add
        (Conv2d (conv3x3 32 64 1 32 1 False)
          (Norm \<lparr>abn_num_features = 64, abn_activation = ''leaky_relu''\<rparr>
            (Conv2d (conv1x1 64 32 1 False) (Input ''x''))))
        (Input ''x''))"
    by (simp add: m_def sym_eval)
  have "norm_forward channel_torch (db_bn1 m) (replicate 64 7) = Inl TorchError"
    by (simp add: m_def DarkBasicBlock_bn1_raises)
  with DarkBasicBlock_forward_dataflow [of channel_torch m "replicate 64 7"]
  have raises: "DarkBasicBlock_forward channel_torch m (replicate 64 7) = Inl TorchError"
    by blast
  from returns raises show ?thesis
    unfolding DarkBasicBlock_init_example bindE_Inr m_def [symmetric]
    by simp
qed

subsection \<open>InvertedResidual: the order of the operations\<close>

text \<open>
  Claim C8. A constructed \<open>InvertedResidual\<close> applies, in this order: the 1x1 expansion and
  its normalisation (only when \<open>expand_ratio\<close> is not 1), the depthwise convolution (as
  many groups as channels) and its normalisation, the attention module, the 1x1 projection,
  a normalisation with the identity activation, and, when the residual is enabled,
  drop-connect on the branch and then the addition of the input. Nothing follows the
  addition.
\<close>

theorem InvertedResidual_forward_order:
  assumes "InvertedResidual_init make_divisible in_channels out_channels dw_kernel_size stride
             dilation attn_type expand_ratio keep_prob noskip norm_act = Inr m"
  shows "InvertedResidual_forward T m x =
     (let mid_chs = make_divisible (of_int in_channels * expand_ratio) in
      bindE (if expand_ratio \<noteq> 1
             then bindE (nn_Conv2d T (conv1x1 in_channels mid_chs 1 False) x)
                    (norm_forward T \<lparr>abn_num_features = mid_chs, abn_activation = norm_act\<rparr>)
             else Inr x) (\<lambda>e.
      bindE (nn_Conv2d T
               \<lparr>c_in_channels = mid_chs, c_out_channels = mid_chs,
                c_kernel_size = dw_kernel_size, c_stride = stride,
                c_padding = dilation * (dw_kernel_size - 1) div 2, c_groups = mid_chs,
                c_bias = False, c_dilation = dilation\<rparr> e) (\<lambda>d.
      bindE (norm_forward T \<lparr>abn_num_features = mid_chs, abn_activation = norm_act\<rparr> d) (\<lambda>d.
      bindE (attn_forward T (ir_se m) d) (\<lambda>a.
      bindE (nn_Conv2d T (conv1x1 mid_chs out_channels 1 False) a) (\<lambda>p.
      bindE (norm_forward T \<lparr>abn_num_features = out_channels, abn_activation = ''identity''\<rparr> p)
        (\<lambda>p.
      if in_channels = out_channels \<and> stride = 1 \<and> \<not> noskip
      then bindE (drop_connect_forward T (make_drop_connect keep_prob) p) (\<lambda>d. t_add T d x)
      else Inr p)))))))"
proof -
  from assms obtain cls where cls: "get_attn attn_type = Inr cls"
    by (cases "get_attn attn_type") (simp_all add: InvertedResidual_init_def Let_def)
  from assms have m: "m = 
        \<lparr>ir_has_residual = ((in_channels = out_channels \<and> stride = 1) \<and> \<not> noskip),
         ir_has_expansion = (expand_ratio \<noteq> 1),
         ir_conv_pw = (if expand_ratio \<noteq> 1 then Some (conv1x1 in_channels (make_divisible (of_int in_channels * expand_ratio)) 1 False) else None),
         ir_bn1 = (if expand_ratio \<noteq> 1
                   then Some \<lparr>abn_num_features = (make_divisible (of_int in_channels * expand_ratio)), abn_activation = norm_act\<rparr> else None),
         ir_conv_dw =
           \<lparr>c_in_channels = (make_divisible (of_int in_channels * expand_ratio)), c_out_channels = (make_divisible (of_int in_channels * expand_ratio)), c_kernel_size = dw_kernel_size,
            c_stride = stride, c_padding = dilation * (dw_kernel_size - 1) div 2,
            c_groups = (make_divisible (of_int in_channels * expand_ratio)), c_bias = False, c_dilation = dilation\<rparr>,
         ir_bn2 = \<lparr>abn_num_features = (make_divisible (of_int in_channels * expand_ratio)), abn_activation = norm_act\<rparr>,
         ir_se = attn_construct cls (make_divisible (of_int in_channels * expand_ratio)) (in_channels div 4) norm_act,
         ir_conv_pw1 = conv1x1 (make_divisible (of_int in_channels * expand_ratio)) out_channels 1 False,
         ir_bn3 = \<lparr>abn_num_features = out_channels, abn_activation = ''identity''\<rparr>,
         ir_drop_connect = make_drop_connect keep_prob\<rparr>"
    by (simp add: InvertedResidual_init_def Let_def cls)
  show ?thesis
    by (simp add: InvertedResidual_forward_def Let_def m attribute_def cong: if_cong)
qed

theorem InvertedResidual_forward_order_witness:
  "bindE (InvertedResidual_init (\<lambda>v. 8 * \<lceil>v / 8\<rceil>) 16 16 3 1 1 None 6 1 False ''relu'')
     (\<lambda>m. InvertedResidual_forward (sym_torch 2) m (Input ''x'')) =
   Inr (Add
     (Norm \<lparr>abn_num_features = 16, abn_activation = ''identity''\<rparr>
       (Conv2d (conv1x1 96 16 1 False)
         (Norm \<lparr>abn_num_features = 96, abn_activation = ''relu''\<rparr>
           (Conv2d \<lparr>c_in_channels = 96, c_out_channels = 96, c_kernel_size = 3, c_stride = 1,
               c_padding = 1, c_groups = 96, c_bias = False, c_dilation = 1\<rparr>
             (Norm \<lparr>abn_num_features = 96, abn_activation = ''relu''\<rparr>
               (Conv2d (conv1x1 16 96 1 False) (Input ''x'')))))))
     (Input ''x''))"
  unfolding InvertedResidual_init_example bindE_Inr
    InvertedResidual_forward_order [OF InvertedResidual_init_example]
  by (simp add: sym_eval make_drop_connect_def)


subsection \<open>Channel counts\<close>

lemma channel_laws_conv:
  "channel_laws T \<Longrightarrow> nn_Conv2d T c a = Inr b \<Longrightarrow>
     int (length a) = c_in_channels c \<and> int (length b) = c_out_channels c"
  unfolding channel_laws_def by blast

lemma channel_laws_norm:
  "channel_laws T \<Longrightarrow> norm_forward T n a = Inr b \<Longrightarrow> length b = length a"
  unfolding channel_laws_def by blast

lemma channel_laws_add:
  "channel_laws T \<Longrightarrow> t_add T a b = Inr r \<Longrightarrow> length a = length b \<Longrightarrow> length r = length a"
  unfolding channel_laws_def by blast

lemma channel_laws_chunk: "channel_laws T \<Longrightarrow> torch_chunk T = chunk_channels"
  unfolding channel_laws_def by blast

lemma channel_laws_cat: "channel_laws T \<Longrightarrow> torch_cat T ts = Inr r \<Longrightarrow> r = concat ts"
  unfolding channel_laws_def by blast

lemma norm_feature_lawD:
  "norm_feature_law T \<Longrightarrow> norm_forward T n a = Inr b \<Longrightarrow> int (length a) = abn_num_features n"
  unfolding norm_feature_law_def by blast

lemma channel_torch_laws: "channel_laws channel_torch"
  by (auto simp: channel_laws_def channel_torch_def split: if_splits)

lemma channel_torch_norm_feature_law: "norm_feature_law channel_torch"
  by (auto simp: norm_feature_law_def channel_torch_def split: if_splits)

lemma channel_torch_simps:
  "nn_Conv2d channel_torch c x =
     (if int (length x) = c_in_channels c \<and> 0 \<le> c_out_channels c
      then Inr (replicate (nat (c_out_channels c)) (Suc (sum_list x)))
      else Inl TorchError)"
  "norm_forward channel_torch n x =
     (if int (length x) = abn_num_features n then Inr x else Inl TorchError)"
  "t_add channel_torch a b = (if length a = length b then Inr (map2 (+) a b) else Inl TorchError)"
  "torch_cat channel_torch ts = Inr (concat ts)"
  "torch_chunk channel_torch = chunk_channels"
  by (simp_all add: channel_torch_def)


subsection \<open>When the residual is added\<close>

lemma attn_forward_t_add: "attn_forward (T\<lparr>t_add := f\<rparr>) a x = attn_forward T a x"
  by (simp add: attn_forward_def forward_or_Identity_def attn_module_forward_def
      SEModule_forward_def ECAModule_forward_def SSEModule_forward_def SCSEModule_forward_def
      split: or_Identity.split attn_module.split)

lemma SimpleBottleneck_forward_residual:
  "SimpleBottleneck_forward T m x =
     bindE (SimpleBottleneck_forward T (m\<lparr>sb_has_residual := False\<rparr>) x)
       (\<lambda>b. if sb_has_residual m then t_add T b x else Inr b)"
  by (cases "sb_has_residual m") (simp_all add: SimpleBottleneck_forward_def bindE_assoc)

lemma SimpleBottleneck_forward_no_add:
  "SimpleBottleneck_forward (T\<lparr>t_add := f\<rparr>) (m\<lparr>sb_has_residual := False\<rparr>) x =
     SimpleBottleneck_forward T (m\<lparr>sb_has_residual := False\<rparr>) x"
  by (simp add: SimpleBottleneck_forward_def)

lemma SimplePreActBottleneck_forward_residual:
  "SimplePreActBottleneck_forward T m x =
     bindE (SimplePreActBottleneck_forward T (m\<lparr>pa_has_residual := False\<rparr>) x)
       (\<lambda>b. if pa_has_residual m then t_add T b x else Inr b)"
  by (cases "pa_has_residual m") (simp_all add: SimplePreActBottleneck_forward_def bindE_assoc)

lemma SimplePreActBottleneck_forward_no_add:
  "SimplePreActBottleneck_forward (T\<lparr>t_add := f\<rparr>) (m\<lparr>pa_has_residual := False\<rparr>) x =
     SimplePreActBottleneck_forward T (m\<lparr>pa_has_residual := False\<rparr>) x"
  by (simp add: SimplePreActBottleneck_forward_def)

lemma InvertedResidual_forward_residual:
  "InvertedResidual_forward T m x =
     bindE (InvertedResidual_forward T (m\<lparr>ir_has_residual := False\<rparr>) x)
       (\<lambda>b. if ir_has_residual m
            then bindE (drop_connect_forward T (ir_drop_connect m) b) (\<lambda>d. t_add T d x)
            else Inr b)"
  by (cases "ir_has_residual m") (simp_all add: InvertedResidual_forward_def bindE_assoc Let_def)

lemma InvertedResidual_forward_no_add:
  "InvertedResidual_forward (T\<lparr>t_add := f\<rparr>) (m\<lparr>ir_has_residual := False\<rparr>) x =
     InvertedResidual_forward T (m\<lparr>ir_has_residual := False\<rparr>) x"
  by (simp add: InvertedResidual_forward_def Let_def attn_forward_t_add)

text \<open>
  \<open>DarkBasicBlock.forward\<close> has no branch on a flag: when it returns, every layer of the
  branch has returned and the result is the sum of the branch and the input.
\<close>

lemma DarkBasicBlock_forward_branch:
  assumes "DarkBasicBlock_forward T m x = Inr y"
  shows "\<exists>c1 b2 c2 a d.
           nn_Conv2d T (db_conv1 m) x = Inr c1 \<and> norm_forward T (db_bn2 m) c1 = Inr b2 \<and>
           nn_Conv2d T (db_conv2 m) b2 = Inr c2 \<and> attn_forward T (db_attention m) c2 = Inr a \<and>
           drop_connect_forward T (db_drop_connect m) a = Inr d \<and> t_add T d x = Inr y"
  using assms by (auto simp: DarkBasicBlock_forward_def bindE_eq_Inr_iff)

lemma DarkBasicBlock_init_fields:
  assumes "DarkBasicBlock_init in_channels out_channels bottle_ratio attn_type norm_act keep_prob
             = Inr m"
  shows "abn_num_features (db_bn1 m) = py_int (of_int in_channels * bottle_ratio)"
    and "c_in_channels (db_conv1 m) = in_channels"
    and "c_out_channels (db_conv1 m) = py_int (of_int in_channels * bottle_ratio)"
    and "abn_num_features (db_bn2 m) = out_channels"
  using assms
  by (cases "get_attn attn_type"; simp add: DarkBasicBlock_init_def Let_def conv1x1_def; fastforce)+

text \<open>
  \<open>bn1\<close> is built for \<open>mid_channels\<close> features and applied to the input, \<open>conv1\<close> takes
  \<open>in_channels\<close> channels to \<open>mid_channels\<close>, and \<open>bn2\<close> is built for \<open>out_channels\<close>
  features and applied to the output of \<open>conv1\<close>: all three return only when the three
  counts are the same.
\<close>

lemma DarkBasicBlock_returns_equal_channels:
  fixes T :: "'c list torch"
  assumes laws: "channel_laws T" and norm: "norm_feature_law T"
    and init: "DarkBasicBlock_init in_channels out_channels bottle_ratio attn_type norm_act
                 keep_prob = Inr m"
    and fwd: "DarkBasicBlock_forward T m x = Inr y"
  shows "in_channels = out_channels \<and> py_int (of_int in_channels * bottle_ratio) = in_channels"
proof -
  from fwd obtain n1 c1 b2
    where n1: "norm_forward T (db_bn1 m) x = Inr n1"
      and c1: "nn_Conv2d T (db_conv1 m) x = Inr c1"
      and b2: "norm_forward T (db_bn2 m) c1 = Inr b2"
    by (auto simp: DarkBasicBlock_forward_def bindE_eq_Inr_iff)
  from norm_feature_lawD [OF norm n1] channel_laws_conv [OF laws c1]
    norm_feature_lawD [OF norm b2] DarkBasicBlock_init_fields [OF init]
  show ?thesis by simp
qed

lemma InvertedResidual_init_has_residual:
  "InvertedResidual_init make_divisible in_chs out_chs dw_kernel_size stride dilation
       attn_type expand_ratio keep_prob noskip norm_act = Inr m \<Longrightarrow>
   ir_has_residual m \<longleftrightarrow> in_chs = out_chs \<and> stride = 1 \<and> \<not> noskip"
  by (cases "get_attn attn_type") (auto simp: InvertedResidual_init_def Let_def)

text \<open>
  A \<open>DarkBasicBlock\<close> from 64 to 64 channels with \<open>bottle_ratio=1\<close>, on a tensor of 64
  channels that hold 7 each.
\<close>

lemma DarkBasicBlock_init_example_square:
  "DarkBasicBlock_init 64 64 1 None ''leaky_relu'' 1 = Inr
     \<lparr>db_bn1 = \<lparr>abn_num_features = 64, abn_activation = ''leaky_relu''\<rparr>,
      db_conv1 = conv1x1 64 64 1 False,
      db_bn2 = \<lparr>abn_num_features = 64, abn_activation = ''leaky_relu''\<rparr>,
      db_conv2 = conv3x3 64 64 1 32 1 False,
      db_attention = Identity,
      db_drop_connect = Identity\<rparr>"
  by (simp add: DarkBasicBlock_init_def get_attn_def attn_construct_def make_drop_connect_def
      py_int_def)

lemma channel_torch_square:
  "nn_Conv2d channel_torch (conv1x1 64 64 1 False) (replicate 64 7) = Inr (replicate 64 449)"
  "nn_Conv2d channel_torch (conv3x3 64 64 1 32 1 False) (replicate 64 449) =
     Inr (replicate 64 28737)"
  "norm_forward channel_torch \<lparr>abn_num_features = 64, abn_activation = a\<rparr> (replicate 64 v) =
     Inr (replicate 64 v)"
  "t_add channel_torch (replicate 64 28737) (replicate 64 7) = Inr (replicate 64 28744)"
  by (simp_all add: channel_torch_def conv1x1_def conv3x3_def sum_list_replicate zip_replicate)

lemma DarkBasicBlock_forward_example_square:
  "DarkBasicBlock_forward channel_torch
     \<lparr>db_bn1 = \<lparr>abn_num_features = 64, abn_activation = ''leaky_relu''\<rparr>,
      db_conv1 = conv1x1 64 64 1 False,
      db_bn2 = \<lparr>abn_num_features = 64, abn_activation = ''leaky_relu''\<rparr>,
      db_conv2 = conv3x3 64 64 1 32 1 False,
      db_attention = Identity,
      db_drop_connect = Identity\<rparr>
     (replicate 64 7) = Inr (replicate 64 28744)"
  by (simp add: DarkBasicBlock_forward_def channel_torch_square attn_forward_def
      drop_connect_forward_def forward_or_Identity_def)


text \<open>
  Claim C1, amended. \<open>SimpleBottleneck\<close> and \<open>SimplePreActBottleneck\<close> set
  \<open>has_residual\<close> at construction exactly when the input and output channel counts are
  equal and the stride is 1; \<open>InvertedResidual\<close> asks in addition that \<open>noskip\<close> is false.
  In these three blocks \<open>forward\<close> is the branch followed by the addition of the input when
  the flag is set, and the branch alone (which never calls the addition) when it is not;
  \<open>forward\<close> returns a tensor only and leaves the flag as it is. \<open>DarkBasicBlock\<close> has no
  flag and no stride: whenever its \<open>forward\<close> returns, the result is the input added to
  \<open>drop_connect(attention(conv2(bn2(conv1(x)))))\<close>; and on an engine that checks channel
  counts, \<open>forward\<close> of a constructed \<open>DarkBasicBlock\<close> returns only if \<open>in_channels\<close>,
  \<open>int(in_channels * bottle_ratio)\<close> and \<open>out_channels\<close> are the same number.
\<close>

theorem residual_addition_enablement:
  "(sb_has_residual (SimpleBottleneck_init in_chs mid_chs out_chs stride groups groups_width
        norm_act keep_prob) \<longleftrightarrow> in_chs = out_chs \<and> stride = 1) \<and>
   (pa_has_residual (SimplePreActBottleneck_init in_chs mid_chs out_chs stride norm_act groups
        groups_width) \<longleftrightarrow> in_chs = out_chs \<and> stride = 1) \<and>
   (\<forall>m. InvertedResidual_init make_divisible in_chs out_chs dw_kernel_size stride dilation
           attn_type expand_ratio keep_prob noskip norm_act = Inr m \<longrightarrow>
        (ir_has_residual m \<longleftrightarrow> in_chs = out_chs \<and> stride = 1 \<and> \<not> noskip)) \<and>
   SimpleBottleneck_forward T sb x =
     bindE (SimpleBottleneck_forward T (sb\<lparr>sb_has_residual := False\<rparr>) x)
       (\<lambda>b. if sb_has_residual sb then t_add T b x else Inr b) \<and>
   SimpleBottleneck_forward (T\<lparr>t_add := f\<rparr>) (sb\<lparr>sb_has_residual := False\<rparr>) x =
     SimpleBottleneck_forward T (sb\<lparr>sb_has_residual := False\<rparr>) x \<and>
   SimplePreActBottleneck_forward T pa x =
     bindE (SimplePreActBottleneck_forward T (pa\<lparr>pa_has_residual := False\<rparr>) x)
       (\<lambda>b. if pa_has_residual pa then t_add T b x else Inr b) \<and>
   SimplePreActBottleneck_forward (T\<lparr>t_add := f\<rparr>) (pa\<lparr>pa_has_residual := False\<rparr>) x =
     SimplePreActBottleneck_forward T (pa\<lparr>pa_has_residual := False\<rparr>) x \<and>
   InvertedResidual_forward T ir x =
     bindE (InvertedResidual_forward T (ir\<lparr>ir_has_residual := False\<rparr>) x)
       (\<lambda>b. if ir_has_residual ir
            then bindE (drop_connect_forward T (ir_drop_connect ir) b) (\<lambda>d. t_add T d x)
            else Inr b) \<and>
   InvertedResidual_forward (T\<lparr>t_add := f\<rparr>) (ir\<lparr>ir_has_residual := False\<rparr>) x =
     InvertedResidual_forward T (ir\<lparr>ir_has_residual := False\<rparr>) x \<and>
   (\<forall>y. DarkBasicBlock_forward T db x = Inr y \<longrightarrow>
      (\<exists>c1 b2 c2 a d.
         nn_Conv2d T (db_conv1 db) x = Inr c1 \<and> norm_forward T (db_bn2 db) c1 = Inr b2 \<and>
         nn_Conv2d T (db_conv2 db) b2 = Inr c2 \<and> attn_forward T (db_attention db) c2 = Inr a \<and>
         drop_connect_forward T (db_drop_connect db) a = Inr d \<and> t_add T d x = Inr y)) \<and>
   (\<forall>m y. channel_laws C \<and> norm_feature_law C \<and>
      DarkBasicBlock_init in_chs out_chs bottle_ratio attn_type norm_act keep_prob = Inr m \<and>
      DarkBasicBlock_forward C m z = Inr y \<longrightarrow>
      in_chs = out_chs \<and> py_int (of_int in_chs * bottle_ratio) = in_chs)"
proof -
  have "sb_has_residual (SimpleBottleneck_init in_chs mid_chs out_chs stride groups groups_width
        norm_act keep_prob) \<longleftrightarrow> in_chs = out_chs \<and> stride = 1"
    by (simp add: SimpleBottleneck_init_def Let_def)
  moreover have "pa_has_residual (SimplePreActBottleneck_init in_chs mid_chs out_chs stride
        norm_act groups groups_width) \<longleftrightarrow> in_chs = out_chs \<and> stride = 1"
    by (simp add: SimplePreActBottleneck_init_def Let_def)
  moreover have "\<forall>m. InvertedResidual_init make_divisible in_chs out_chs dw_kernel_size stride
           dilation attn_type expand_ratio keep_prob noskip norm_act = Inr m \<longrightarrow>
        (ir_has_residual m \<longleftrightarrow> in_chs = out_chs \<and> stride = 1 \<and> \<not> noskip)"
    by (intro allI impI) (rule InvertedResidual_init_has_residual)
  moreover have "\<forall>y. DarkBasicBlock_forward T db x = Inr y \<longrightarrow>
      (\<exists>c1 b2 c2 a d.
         nn_Conv2d T (db_conv1 db) x = Inr c1 \<and> norm_forward T (db_bn2 db) c1 = Inr b2 \<and>
         nn_Conv2d T (db_conv2 db) b2 = Inr c2 \<and> attn_forward T (db_attention db) c2 = Inr a \<and>
         drop_connect_forward T (db_drop_connect db) a = Inr d \<and> t_add T d x = Inr y)"
    by (intro allI impI) (rule DarkBasicBlock_forward_branch)
  moreover have "\<forall>m y. channel_laws C \<and> norm_feature_law C \<and>
      DarkBasicBlock_init in_chs out_chs bottle_ratio attn_type norm_act keep_prob = Inr m \<and>
      DarkBasicBlock_forward C m z = Inr y \<longrightarrow>
      in_chs = out_chs \<and> py_int (of_int in_chs * bottle_ratio) = in_chs"
  proof (intro allI impI, elim conjE)
    fix m y
    assume "channel_laws C" "norm_feature_law C"
      "DarkBasicBlock_init in_chs out_chs bottle_ratio attn_type norm_act keep_prob = Inr m"
      "DarkBasicBlock_forward C m z = Inr y"
    then show "in_chs = out_chs \<and> py_int (of_int in_chs * bottle_ratio) = in_chs"
      by (rule DarkBasicBlock_returns_equal_channels)
  qed
  ultimately show ?thesis
    using SimpleBottleneck_forward_residual [of T sb x]
      SimpleBottleneck_forward_no_add [where T = T and f = f and m = sb and x = x]
      SimplePreActBottleneck_forward_residual [of T pa x]
      SimplePreActBottleneck_forward_no_add [where T = T and f = f and m = pa and x = x]
      InvertedResidual_forward_residual [of T ir x]
      InvertedResidual_forward_no_add [where T = T and f = f and m = ir and x = x]
    by (intro conjI) assumption+
qed

theorem residual_addition_enablement_witness:
  "(\<exists>m. InvertedResidual_init (\<lambda>v. 8 * \<lceil>v / 8\<rceil>) 16 16 3 1 1 None 6 1 False ''relu'' = Inr m \<and>
        ir_has_residual m) \<and>
   (\<exists>m. InvertedResidual_init (\<lambda>v. 8 * \<lceil>v / 8\<rceil>) 16 16 3 1 1 None 6 1 True ''relu'' = Inr m \<and>
        \<not> ir_has_residual m) \<and>
   (\<exists>m. DarkBasicBlock_init 64 64 1 None ''leaky_relu'' 1 = Inr m \<and>
        channel_laws channel_torch \<and> norm_feature_law channel_torch \<and>
        DarkBasicBlock_forward channel_torch m (replicate 64 7) = Inr (replicate 64 28744) \<and>
        (\<exists>c1 b2 c2 a d.
           nn_Conv2d channel_torch (db_conv1 m) (replicate 64 7) = Inr c1 \<and>
           norm_forward channel_torch (db_bn2 m) c1 = Inr b2 \<and>
           nn_Conv2d channel_torch (db_conv2 m) b2 = Inr c2 \<and>
           attn_forward channel_torch (db_attention m) c2 = Inr a \<and>
           drop_connect_forward channel_torch (db_drop_connect m) a = Inr d \<and>
           d = replicate 64 28737 \<and>
           t_add channel_torch d (replicate 64 7) = Inr (replicate 64 28744)) \<and>
        py_int (of_int 64 * 1) = 64)"
proof -
  note flag = residual_addition_enablement
    [THEN conjunct2, THEN conjunct2, THEN conjunct1, rule_format]
  note branch = residual_addition_enablement
    [THEN conjunct2, THEN conjunct2, THEN conjunct2, THEN conjunct2, THEN conjunct2,
     THEN conjunct2, THEN conjunct2, THEN conjunct2, THEN conjunct2, THEN conjunct1, rule_format]
  note equal = residual_addition_enablement
    [THEN conjunct2, THEN conjunct2, THEN conjunct2, THEN conjunct2, THEN conjunct2,
     THEN conjunct2, THEN conjunct2, THEN conjunct2, THEN conjunct2, THEN conjunct2, rule_format]
  have a: "\<exists>m. InvertedResidual_init (\<lambda>v. 8 * \<lceil>v / 8\<rceil>) 16 16 3 1 1 None 6 1 False ''relu'' = Inr m \<and>
        ir_has_residual m"
    using flag [OF InvertedResidual_init_example] InvertedResidual_init_example by simp
  have b: "\<exists>m. InvertedResidual_init (\<lambda>v. 8 * \<lceil>v / 8\<rceil>) 16 16 3 1 1 None 6 1 True ''relu'' = Inr m \<and>
        \<not> ir_has_residual m"
    using flag [OF InvertedResidual_init_example_noskip] InvertedResidual_init_example_noskip
    by simp
  define m where "m =
     \<lparr>db_bn1 = \<lparr>abn_num_features = 64, abn_activation = ''leaky_relu''\<rparr>,
      db_conv1 = conv1x1 64 64 1 False,
      db_bn2 = \<lparr>abn_num_features = 64, abn_activation = ''leaky_relu''\<rparr>,
      db_conv2 = conv3x3 64 64 1 32 1 False,
      db_attention = Identity,
      db_drop_connect = Identity\<rparr>"
  have init: "DarkBasicBlock_init 64 64 1 None ''leaky_relu'' 1 = Inr m"
    unfolding m_def by (rule DarkBasicBlock_init_example_square)
  have fwd: "DarkBasicBlock_forward channel_torch m (replicate 64 7) = Inr (replicate 64 28744)"
    unfolding m_def by (rule DarkBasicBlock_forward_example_square)
  from branch [OF fwd] obtain c1 b2 c2 a d
    where c1: "nn_Conv2d channel_torch (db_conv1 m) (replicate 64 7) = Inr c1"
      and b2: "norm_forward channel_torch (db_bn2 m) c1 = Inr b2"
      and c2: "nn_Conv2d channel_torch (db_conv2 m) b2 = Inr c2"
      and att: "attn_forward channel_torch (db_attention m) c2 = Inr a"
      and dc: "drop_connect_forward channel_torch (db_drop_connect m) a = Inr d"
      and add: "t_add channel_torch d (replicate 64 7) = Inr (replicate 64 28744)"
    by blast
  from c1 have "c1 = replicate 64 449"
    by (simp add: m_def channel_torch_square)
  with b2 have "b2 = replicate 64 449"
    by (simp add: m_def channel_torch_square)
  with c2 have "c2 = replicate 64 28737"
    by (simp add: m_def channel_torch_square)
  with att have "a = replicate 64 28737"
    by (simp add: m_def attn_forward_def forward_or_Identity_def)
  with dc have d: "d = replicate 64 28737"
    by (simp add: m_def drop_connect_forward_def forward_or_Identity_def)
  from equal [OF conjI [OF channel_torch_laws
      conjI [OF channel_torch_norm_feature_law conjI [OF init fwd]]]]
  have mid: "py_int (of_int 64 * 1) = 64"
    by simp
  from init fwd c1 b2 c2 att dc d add mid channel_torch_laws channel_torch_norm_feature_law
  have "\<exists>m. DarkBasicBlock_init 64 64 1 None ''leaky_relu'' 1 = Inr m \<and>
        channel_laws channel_torch \<and> norm_feature_law channel_torch \<and>
        DarkBasicBlock_forward channel_torch m (replicate 64 7) = Inr (replicate 64 28744) \<and>
        (\<exists>c1 b2 c2 a d.
           nn_Conv2d channel_torch (db_conv1 m) (replicate 64 7) = Inr c1 \<and>
           norm_forward channel_torch (db_bn2 m) c1 = Inr b2 \<and>
           nn_Conv2d channel_torch (db_conv2 m) b2 = Inr c2 \<and>
           attn_forward channel_torch (db_attention m) c2 = Inr a \<and>
           drop_connect_forward channel_torch (db_drop_connect m) a = Inr d \<and>
           d = replicate 64 28737 \<and>
           t_add channel_torch d (replicate 64 7) = Inr (replicate 64 28744)) \<and>
        py_int (of_int 64 * 1) = 64"
    by blast
  with a b show ?thesis by blast
qed


text \<open>
  The claim as first stated fails: an \<open>InvertedResidual\<close> with 16 input and 16 output
  channels and stride 1, built with \<open>noskip=True\<close>, has no residual and its output is the
  branch alone.
\<close>

theorem residual_rule_counterexample:
  "map_sum id ir_has_residual
     (InvertedResidual_init (\<lambda>v. 8 * \<lceil>v / 8\<rceil>) 16 16 3 1 1 None 6 1 True ''relu'') = Inr False \<and>
   bindE (InvertedResidual_init (\<lambda>v. 8 * \<lceil>v / 8\<rceil>) 16 16 3 1 1 None 6 1 True ''relu'')
     (\<lambda>m. InvertedResidual_forward (sym_torch 2) m (Input ''x'')) =
   Inr (Norm \<lparr>abn_num_features = 16, abn_activation = ''identity''\<rparr>
       (Conv2d (conv1x1 96 16 1 False)
         (Norm \<lparr>abn_num_features = 96, abn_activation = ''relu''\<rparr>
           (Conv2d \<lparr>c_in_channels = 96, c_out_channels = 96, c_kernel_size = 3, c_stride = 1,
               c_padding = 1, c_groups = 96, c_bias = False, c_dilation = 1\<rparr>
             (Norm \<lparr>abn_num_features = 96, abn_activation = ''relu''\<rparr>
               (Conv2d (conv1x1 16 96 1 False) (Input ''x'')))))))"
  unfolding InvertedResidual_init_example_noskip bindE_Inr
  by (simp add: InvertedResidual_forward_def sym_eval)


subsection \<open>Anti-aliasing in BasicBlock and Bottleneck\<close>

lemma BasicBlock_init_fields:
  assumes "BasicBlock_init inplanes planes stride downsample groups base_width attn_type dilation
             norm_act antialias keep_prob = Inr m"
  shows "bb_antialias m = (antialias \<and> stride = 2)"
    and "bb_blurpool m = (if antialias \<and> stride = 2 then Module planes else Identity)"
    and "bb_conv1 m =
           conv3x3 inplanes planes (if antialias \<and> stride = 2 then 1 else stride) groups dilation
             False"
    and "bb_conv2 m = conv3x3 planes (planes * BasicBlock_expansion) 1 1 1 False"
    and "bb_downsample m = downsample"
  using assms
  by (auto simp: BasicBlock_init_def Let_def bindE_eq_Inr_iff split: if_splits)

lemma Bottleneck_init_fields:
  assumes "Bottleneck_init inplanes planes stride downsample groups base_width attn_type dilation
             norm_act antialias keep_prob = Inr m"
    and "width = \<lfloor>of_int planes * (of_int base_width / 64 :: real)\<rfloor> * groups"
  shows "bt_antialias m = (antialias \<and> stride = 2)"
    and "bt_blurpool m = (if antialias \<and> stride = 2 then Module width else Identity)"
    and "bt_conv1 m = conv1x1 inplanes width 1 False"
    and "bt_conv2 m =
           conv3x3 width width (if antialias \<and> stride = 2 then 1 else stride) groups dilation
             False"
    and "bt_conv3 m = conv1x1 width (planes * Bottleneck_expansion) 1 False"
    and "bt_downsample m = downsample"
  using assms
  by (auto simp: Bottleneck_init_def Let_def bindE_eq_Inr_iff split: if_splits)

lemma BasicBlock_forward_blur:
  assumes "BasicBlock_init inplanes planes stride downsample groups base_width attn_type dilation
             norm_act antialias keep_prob = Inr m"
  shows "BasicBlock_forward T m x =
        bindE (case downsample of None \<Rightarrow> Inr x | Some d \<Rightarrow> d x) (\<lambda>residual.
        bindE (nn_Conv2d T (bb_conv1 m) x) (\<lambda>out.
        bindE (norm_forward T (bb_bn1 m) out) (\<lambda>out.
        bindE (if antialias \<and> stride = 2 then BlurPool_forward T planes out else Inr out) (\<lambda>out.
        bindE (nn_Conv2d T (bb_conv2 m) out) (\<lambda>out.
        bindE (norm_forward T (bb_bn2 m) out) (\<lambda>out.
        bindE (attn_forward T (bb_se_module m) out) (\<lambda>out.
        bindE (drop_connect_forward T (bb_drop_connect m) out) (\<lambda>out.
        bindE (t_add T out residual) (\<lambda>out.
        activation_forward T (bb_final_act m) out)))))))))"
  unfolding BasicBlock_forward_def BasicBlock_init_fields(1,2,5) [OF assms]
  by (simp add: forward_or_Identity_def cong: if_cong)

lemma Bottleneck_forward_blur:
  assumes "Bottleneck_init inplanes planes stride downsample groups base_width attn_type dilation
             norm_act antialias keep_prob = Inr m"
    and "width = \<lfloor>of_int planes * (of_int base_width / 64 :: real)\<rfloor> * groups"
  shows "Bottleneck_forward T m x =
        bindE (case downsample of None \<Rightarrow> Inr x | Some d \<Rightarrow> d x) (\<lambda>residual.
        bindE (nn_Conv2d T (bt_conv1 m) x) (\<lambda>out.
        bindE (norm_forward T (bt_bn1 m) out) (\<lambda>out.
        bindE (nn_Conv2d T (bt_conv2 m) out) (\<lambda>out.
        bindE (norm_forward T (bt_bn2 m) out) (\<lambda>out.
        bindE (if antialias \<and> stride = 2 then BlurPool_forward T width out else Inr out) (\<lambda>out.
        bindE (nn_Conv2d T (bt_conv3 m) out) (\<lambda>out.
        bindE (norm_forward T (bt_bn3 m) out) (\<lambda>out.
        bindE (attn_forward T (bt_se_module m) out) (\<lambda>out.
        bindE (drop_connect_forward T (bt_drop_connect m) out) (\<lambda>out.
        bindE (t_add T out residual) (\<lambda>out.
        activation_forward T (bt_final_act m) out)))))))))))"
  unfolding Bottleneck_forward_def Bottleneck_init_fields(1,2,6) [OF assms]
  by (simp add: forward_or_Identity_def cong: if_cong)


text \<open>
  Claim C6, amended. In \<open>BasicBlock\<close> and \<open>Bottleneck\<close> anti-aliasing is in effect exactly
  when it is requested and the stride is 2. Then the convolution that would have strided
  (\<open>conv1\<close> of \<open>BasicBlock\<close>, \<open>conv2\<close> of \<open>Bottleneck\<close>) is built with stride 1, and the
  blur filter is applied after that convolution and its normalisation, before the next
  convolution, which has stride 1 as well: no convolution of the block strides. With any
  other stride the flag is dropped, the convolution keeps its stride and no blur filter is
  applied.
\<close>

theorem antialias_moves_stride:
  "(\<forall>m. BasicBlock_init inplanes planes stride downsample groups base_width attn_type dilation
           norm_act antialias keep_prob = Inr m \<longrightarrow>
      (bb_antialias m \<longleftrightarrow> antialias \<and> stride = 2) \<and>
      bb_blurpool m = (if antialias \<and> stride = 2 then Module planes else Identity) \<and>
      c_stride (bb_conv1 m) = (if antialias \<and> stride = 2 then 1 else stride) \<and>
      c_stride (bb_conv2 m) = 1 \<and>
      BasicBlock_forward T m x =
        bindE (case downsample of None \<Rightarrow> Inr x | Some d \<Rightarrow> d x) (\<lambda>residual.
        bindE (nn_Conv2d T (bb_conv1 m) x) (\<lambda>out.
        bindE (norm_forward T (bb_bn1 m) out) (\<lambda>out.
        bindE (if antialias \<and> stride = 2 then BlurPool_forward T planes out else Inr out) (\<lambda>out.
        bindE (nn_Conv2d T (bb_conv2 m) out) (\<lambda>out.
        bindE (norm_forward T (bb_bn2 m) out) (\<lambda>out.
        bindE (attn_forward T (bb_se_module m) out) (\<lambda>out.
        bindE (drop_connect_forward T (bb_drop_connect m) out) (\<lambda>out.
        bindE (t_add T out residual) (\<lambda>out.
        activation_forward T (bb_final_act m) out)))))))))) \<and>
   (\<forall>m. Bottleneck_init inplanes planes stride downsample groups base_width attn_type dilation
           norm_act antialias keep_prob = Inr m \<longrightarrow>
      (bt_antialias m \<longleftrightarrow> antialias \<and> stride = 2) \<and>
      bt_blurpool m =
        (if antialias \<and> stride = 2
         then Module (\<lfloor>of_int planes * (of_int base_width / 64 :: real)\<rfloor> * groups)
         else Identity) \<and>
      c_stride (bt_conv1 m) = 1 \<and>
      c_stride (bt_conv2 m) = (if antialias \<and> stride = 2 then 1 else stride) \<and>
      c_stride (bt_conv3 m) = 1 \<and>
      Bottleneck_forward T m x =
        bindE (case downsample of None \<Rightarrow> Inr x | Some d \<Rightarrow> d x) (\<lambda>residual.
        bindE (nn_Conv2d T (bt_conv1 m) x) (\<lambda>out.
        bindE (norm_forward T (bt_bn1 m) out) (\<lambda>out.
        bindE (nn_Conv2d T (bt_conv2 m) out) (\<lambda>out.
        bindE (norm_forward T (bt_bn2 m) out) (\<lambda>out.
        bindE (if antialias \<and> stride = 2
               then BlurPool_forward T
                      (\<lfloor>of_int planes * (of_int base_width / 64 :: real)\<rfloor> * groups) out
               else Inr out) (\<lambda>out.
        bindE (nn_Conv2d T (bt_conv3 m) out) (\<lambda>out.
        bindE (norm_forward T (bt_bn3 m) out) (\<lambda>out.
        bindE (attn_forward T (bt_se_module m) out) (\<lambda>out.
        bindE (drop_connect_forward T (bt_drop_connect m) out) (\<lambda>out.
        bindE (t_add T out residual) (\<lambda>out.
        activation_forward T (bt_final_act m) out))))))))))))"
proof (intro conjI allI impI)
  fix m :: "'a BasicBlock"
  assume init: "BasicBlock_init inplanes planes stride downsample groups base_width attn_type
      dilation norm_act antialias keep_prob = Inr m"
  note f = BasicBlock_init_fields [OF init]
  show "bb_antialias m \<longleftrightarrow> antialias \<and> stride = 2"
    by (rule f(1))
  show "bb_blurpool m = (if antialias \<and> stride = 2 then Module planes else Identity)"
    by (rule f(2))
  show "c_stride (bb_conv1 m) = (if antialias \<and> stride = 2 then 1 else stride)"
    by (simp add: f(3) conv3x3_def)
  show "c_stride (bb_conv2 m) = 1"
    by (simp add: f(4) conv3x3_def)
  show "BasicBlock_forward T m x =
        bindE (case downsample of None \<Rightarrow> Inr x | Some d \<Rightarrow> d x) (\<lambda>residual.
        bindE (nn_Conv2d T (bb_conv1 m) x) (\<lambda>out.
        bindE (norm_forward T (bb_bn1 m) out) (\<lambda>out.
        bindE (if antialias \<and> stride = 2 then BlurPool_forward T planes out else Inr out) (\<lambda>out.
        bindE (nn_Conv2d T (bb_conv2 m) out) (\<lambda>out.
        bindE (norm_forward T (bb_bn2 m) out) (\<lambda>out.
        bindE (attn_forward T (bb_se_module m) out) (\<lambda>out.
        bindE (drop_connect_forward T (bb_drop_connect m) out) (\<lambda>out.
        bindE (t_add T out residual) (\<lambda>out.
        activation_forward T (bb_final_act m) out)))))))))"
    by (rule BasicBlock_forward_blur [OF init])
next
  fix m :: "'a Bottleneck"
  assume init: "Bottleneck_init inplanes planes stride downsample groups base_width attn_type
      dilation norm_act antialias keep_prob = Inr m"
  note f = Bottleneck_init_fields [OF init refl]
  show "bt_antialias m \<longleftrightarrow> antialias \<and> stride = 2"
    by (rule f(1))
  show "bt_blurpool m =
        (if antialias \<and> stride = 2
         then Module (\<lfloor>of_int planes * (of_int base_width / 64 :: real)\<rfloor> * groups)
         else Identity)"
    by (rule f(2))
  show "c_stride (bt_conv1 m) = 1"
    by (simp add: f(3) conv1x1_def)
  show "c_stride (bt_conv2 m) = (if antialias \<and> stride = 2 then 1 else stride)"
    by (simp add: f(4) conv3x3_def)
  show "c_stride (bt_conv3 m) = 1"
    by (simp add: f(5) conv1x1_def)
  show "Bottleneck_forward T m x =
        bindE (case downsample of None \<Rightarrow> Inr x | Some d \<Rightarrow> d x) (\<lambda>residual.
        bindE (nn_Conv2d T (bt_conv1 m) x) (\<lambda>out.
        bindE (norm_forward T (bt_bn1 m) out) (\<lambda>out.
        bindE (nn_Conv2d T (bt_conv2 m) out) (\<lambda>out.
        bindE (norm_forward T (bt_bn2 m) out) (\<lambda>out.
        bindE (if antialias \<and> stride = 2
               then BlurPool_forward T
                      (\<lfloor>of_int planes * (of_int base_width / 64 :: real)\<rfloor> * groups) out
               else Inr out) (\<lambda>out.
        bindE (nn_Conv2d T (bt_conv3 m) out) (\<lambda>out.
        bindE (norm_forward T (bt_bn3 m) out) (\<lambda>out.
        bindE (attn_forward T (bt_se_module m) out) (\<lambda>out.
        bindE (drop_connect_forward T (bt_drop_connect m) out) (\<lambda>out.
        bindE (t_add T out residual) (\<lambda>out.
        activation_forward T (bt_final_act m) out)))))))))))"
    by (rule Bottleneck_forward_blur [OF init refl])
qed

theorem antialias_moves_stride_witness:
  "(\<exists>m. BasicBlock_init 64 64 2 (None :: (sym \<Rightarrow> error + sym) option) 1 64 None 1 ''relu'' True 1
          = Inr m \<and>
        bb_antialias m \<and> bb_blurpool m = Module 64 \<and> c_stride (bb_conv1 m) = 1 \<and>
        BasicBlock_forward (sym_torch 2) m (Input ''x'') =
          Inr (Act ''relu'' (Add
            (Norm \<lparr>abn_num_features = 64, abn_activation = ''identity''\<rparr>
              (Conv2d (conv3x3 64 64 1 1 1 False)
                (Blur 64
                  (Norm \<lparr>abn_num_features = 64, abn_activation = ''relu''\<rparr>
                    (Conv2d (conv3x3 64 64 1 1 1 False) (Input ''x''))))))
            (Input ''x'')))) \<and>
   (\<exists>m. Bottleneck_init 64 64 2 (None :: (sym \<Rightarrow> error + sym) option) 1 64 None 1 ''relu'' True 1
          = Inr m \<and>
        bt_antialias m \<and> bt_blurpool m = Module 64 \<and> c_stride (bt_conv2 m) = 1)"
proof -
  obtain m :: "sym BasicBlock"
    where m: "BasicBlock_init 64 64 2 None 1 64 None 1 ''relu'' True 1 = Inr m"
    using BasicBlock_init_example by blast
  obtain m' :: "sym Bottleneck"
    where m': "Bottleneck_init 64 64 2 None 1 64 None 1 ''relu'' True 1 = Inr m'"
    using Bottleneck_init_example by blast
  note r = antialias_moves_stride [where inplanes = 64 and planes = 64 and stride = 2
      and downsample = "None :: (sym \<Rightarrow> error + sym) option" and groups = 1 and base_width = 64
      and attn_type = None and dilation = 1 and norm_act = "''relu''" and antialias = True
      and keep_prob = 1 and T = "sym_torch 2" and x = "Input ''x''"]
  from r m have 1: "bb_antialias m" "bb_blurpool m = Module 64" "c_stride (bb_conv1 m) = 1"
    by simp_all
  from r m have "BasicBlock_forward (sym_torch 2) m (Input ''x'') =
        bindE (Inr (Input ''x'')) (\<lambda>residual.
        bindE (nn_Conv2d (sym_torch 2) (bb_conv1 m) (Input ''x'')) (\<lambda>out.
        bindE (norm_forward (sym_torch 2) (bb_bn1 m) out) (\<lambda>out.
        bindE (BlurPool_forward (sym_torch 2) 64 out) (\<lambda>out.
        bindE (nn_Conv2d (sym_torch 2) (bb_conv2 m) out) (\<lambda>out.
        bindE (norm_forward (sym_torch 2) (bb_bn2 m) out) (\<lambda>out.
        bindE (attn_forward (sym_torch 2) (bb_se_module m) out) (\<lambda>out.
        bindE (drop_connect_forward (sym_torch 2) (bb_drop_connect m) out) (\<lambda>out.
        bindE (t_add (sym_torch 2) out residual) (\<lambda>out.
        activation_forward (sym_torch 2) (bb_final_act m) out)))))))))"
    by simp
  moreover from m have "m = \<lparr>bb_conv1 = conv3x3 64 64 1 1 1 False,
      bb_bn1 = \<lparr>abn_num_features = 64, abn_activation = ''relu''\<rparr>,
      bb_conv2 = conv3x3 64 64 1 1 1 False,
      bb_bn2 = \<lparr>abn_num_features = 64, abn_activation = ''identity''\<rparr>,
      bb_se_module = Identity,
      bb_final_act = ''relu'',
      bb_downsample = None,
      bb_blurpool = Module 64,
      bb_antialias = True,
      bb_drop_connect = Identity\<rparr>"
    unfolding BasicBlock_init_example by simp
  ultimately have 2: "BasicBlock_forward (sym_torch 2) m (Input ''x'') =
          Inr (Act ''relu'' (Add
            (Norm \<lparr>abn_num_features = 64, abn_activation = ''identity''\<rparr>
              (Conv2d (conv3x3 64 64 1 1 1 False)
                (Blur 64
                  (Norm \<lparr>abn_num_features = 64, abn_activation = ''relu''\<rparr>
                    (Conv2d (conv3x3 64 64 1 1 1 False) (Input ''x''))))))
            (Input ''x'')))"
    by (simp add: sym_eval)
  from r m' have 3: "bt_antialias m'" "bt_blurpool m' = Module 64" "c_stride (bt_conv2 m') = 1"
    by simp_all
  from m m' 1 2 3 show ?thesis by blast
qed


text \<open>
  The claim as first stated puts the blur filter before a strided convolution. With
  anti-aliasing requested and stride 2, the convolution that reads the blurred tensor has
  stride 1 in both blocks, and so has the one before the filter.
\<close>

theorem blur_before_strided_convolution_counterexample:
  "bindE (BasicBlock_init 64 64 2 None 1 64 None 1 ''relu'' True 1)
     (\<lambda>m. BasicBlock_forward (sym_torch 2) m (Input ''x'')) =
   Inr (Act ''relu'' (Add
     (Norm \<lparr>abn_num_features = 64, abn_activation = ''identity''\<rparr>
       (Conv2d (conv3x3 64 64 1 1 1 False)
         (Blur 64
           (Norm \<lparr>abn_num_features = 64, abn_activation = ''relu''\<rparr>
             (Conv2d (conv3x3 64 64 1 1 1 False) (Input ''x''))))))
     (Input ''x''))) \<and>
   bindE (Bottleneck_init 64 64 2 None 1 64 None 1 ''relu'' True 1)
     (\<lambda>m. Bottleneck_forward (sym_torch 2) m (Input ''x'')) =
   Inr (Act ''relu'' (Add
     (Norm \<lparr>abn_num_features = 256, abn_activation = ''identity''\<rparr>
       (Conv2d (conv1x1 64 256 1 False)
         (Blur 64
           (Norm \<lparr>abn_num_features = 64, abn_activation = ''relu''\<rparr>
             (Conv2d (conv3x3 64 64 1 1 1 False)
               (Norm \<lparr>abn_num_features = 64, abn_activation = ''relu''\<rparr>
                 (Conv2d (conv1x1 64 64 1 False) (Input ''x''))))))))
     (Input ''x''))) \<and>
   c_stride (conv3x3 64 64 1 1 1 False) = 1 \<and> c_stride (conv1x1 64 256 1 False) = 1"
  unfolding BasicBlock_init_example Bottleneck_init_example bindE_Inr
  by (simp add: BasicBlock_forward_def Bottleneck_forward_def sym_eval conv3x3_def conv1x1_def)

subsection \<open>Stochastic depth in training\<close>

lemma map4_column: "map4 f (column us) = column (map f us)"
  by (simp add: map4_def column_def)

lemma map2_scale_sample:
  "map2 scale_sample (map g us) (map4 f x) =
     map2 (\<lambda>u s. map (map (map (\<lambda>v. f v * g u))) s) us x"
  by (simp add: map4_def scale_sample_def zip_map_map comp_def case_prod_unfold)

lemma floor_keep_prob:
  fixes kp u :: real
  assumes "0 < kp" "kp \<le> 1" "0 \<le> u" "u < 1"
  shows "\<lfloor>kp + u\<rfloor> = (if 1 - kp \<le> u then 1 else 0)"
  using assms by (auto simp: floor_eq_iff)


text \<open>
  Claim C4. In training mode, on a batch of shape \<open>[B, C, H, W]\<close> and with one draw
  \<open>u\<close> in \<open>[0, 1)\<close> per batch element (the column \<open>torch.rand\<close> returns),
  \<open>DropConnect.forward\<close> returns a tensor of the same shape whose sample \<open>i\<close> is
  \<open>x[i] / keep_prob * floor(keep_prob + u[i])\<close>: the sample times \<open>1 / keep_prob\<close> when
  \<open>u[i] \<ge> 1 - keep_prob\<close> (an interval of length \<open>keep_prob\<close>, so a uniform draw keeps the
  sample with that probability), and zero otherwise. \<open>keep_prob\<close> lies in \<open>(0, 1]\<close>;
  numbers are real numbers.
\<close>

theorem DropConnect_forward_training:
  assumes T: "batch_arithmetic T"
    and rand: "torch_rand T [int (length x), 1, 1, 1] = column us"
    and us: "length us = length x" "\<forall>u \<in> set us. 0 \<le> u \<and> u < 1"
    and kp: "0 < keep_prob" "keep_prob \<le> 1"
  shows "\<exists>out. DropConnect_forward T \<lparr>dc_keep_prob = keep_prob, dc_training = True\<rparr> x = Inr out \<and>
           shape4 out = shape4 x \<and>
           (\<forall>i < length x.
              out ! i = map (map (map (\<lambda>v. v / keep_prob * of_int \<lfloor>keep_prob + us ! i\<rfloor>))) (x ! i) \<and>
              (1 - keep_prob \<le> us ! i \<longrightarrow>
                 out ! i = map (map (map (\<lambda>v. v * (1 / keep_prob)))) (x ! i)) \<and>
              (us ! i < 1 - keep_prob \<longrightarrow> out ! i = map (map (map (\<lambda>v. 0))) (x ! i)))"
proof -
  define out where
    "out = map2 (\<lambda>u s. map (map (map (\<lambda>v. v / keep_prob * of_int \<lfloor>keep_prob + u\<rfloor>))) s) us x"
  have len: "length (map (\<lambda>u. real_of_int \<lfloor>keep_prob + u\<rfloor>) us) = length (map4 (\<lambda>v. v / keep_prob) x)"
    using us(1) by (simp add: map4_def)
  have fwd: "DropConnect_forward T \<lparr>dc_keep_prob = keep_prob, dc_training = True\<rparr> x = Inr out"
  proof -
    have "DropConnect_forward T \<lparr>dc_keep_prob = keep_prob, dc_training = True\<rparr> x =
        t_mul T (map4 (\<lambda>v. v / keep_prob) x)
          (column (map (\<lambda>u. real_of_int \<lfloor>keep_prob + u\<rfloor>) us))"
      using T rand
      by (simp add: DropConnect_forward_def batch_arithmetic_def Let_def map4_column comp_def)
    also have "\<dots> = Inr (map2 scale_sample (map (\<lambda>u. real_of_int \<lfloor>keep_prob + u\<rfloor>) us)
        (map4 (\<lambda>v. v / keep_prob) x))"
      using T len unfolding batch_arithmetic_def by blast
    also have "\<dots> = Inr out"
      unfolding map2_scale_sample out_def ..
    finally show ?thesis .
  qed
  have nth: "out ! i = map (map (map (\<lambda>v. v / keep_prob * of_int \<lfloor>keep_prob + us ! i\<rfloor>))) (x ! i)"
    if "i < length x" for i
    using that us(1) by (simp add: out_def)
  have shape: "shape4 out = shape4 x"
    using us(1) by (auto simp: shape4_def out_def list_eq_iff_nth_eq)
  have cases: "(1 - keep_prob \<le> us ! i \<longrightarrow>
                 out ! i = map (map (map (\<lambda>v. v * (1 / keep_prob)))) (x ! i)) \<and>
              (us ! i < 1 - keep_prob \<longrightarrow> out ! i = map (map (map (\<lambda>v. 0))) (x ! i))"
    if "i < length x" for i
  proof -
    from that us have "0 \<le> us ! i" "us ! i < 1"
      by (simp_all add: all_set_conv_all_nth)
    from floor_keep_prob [OF kp this]
    show ?thesis by (simp add: nth [OF that])
  qed
  from fwd shape nth cases show ?thesis by blast
qed


lemma hd_column: "map (\<lambda>t. hd (hd (hd t))) (column fs) = fs"
  by (simp add: column_def comp_def)

lemma batch_torch_arithmetic: "batch_arithmetic (batch_torch us)"
  by (simp add: batch_arithmetic_def batch_torch_def hd_column) (simp add: column_def)

theorem DropConnect_forward_training_witness:
  "\<exists>out. DropConnect_forward (batch_torch [0.9, 0.1])
            \<lparr>dc_keep_prob = 0.8, dc_training = True\<rparr> [[[[4, 8]]], [[[12, 16]]]] = Inr out \<and>
         shape4 out = [[[2]], [[2]]] \<and> out ! 0 = [[[5, 10]]] \<and> out ! 1 = [[[0, 0]]]"
proof -
  let ?x = "[[[[4, 8]]], [[[12, 16]]]] :: tensor4"
  let ?us = "[0.9, 0.1] :: real list"
  have rand: "torch_rand (batch_torch ?us) [int (length ?x), 1, 1, 1] = column ?us"
    by (simp add: batch_torch_def)
  have us: "length ?us = length ?x" "\<forall>u \<in> set ?us. 0 \<le> u \<and> u < 1"
    by simp_all
  have kp: "(0::real) < 0.8" "(0.8::real) \<le> 1"
    by simp_all
  from DropConnect_forward_training [OF batch_torch_arithmetic rand us kp]
  obtain out where out: "DropConnect_forward (batch_torch ?us)
            \<lparr>dc_keep_prob = 0.8, dc_training = True\<rparr> ?x = Inr out"
    and shape: "shape4 out = shape4 ?x"
    and each: "\<forall>i < length ?x.
              out ! i = map (map (map (\<lambda>v. v / 0.8 * of_int \<lfloor>0.8 + ?us ! i\<rfloor>))) (?x ! i) \<and>
              (1 - 0.8 \<le> ?us ! i \<longrightarrow>
                 out ! i = map (map (map (\<lambda>v. v * (1 / 0.8)))) (?x ! i)) \<and>
              (?us ! i < 1 - 0.8 \<longrightarrow> out ! i = map (map (map (\<lambda>v. 0))) (?x ! i))"
    by blast
  from each have "out ! 0 = [[[5, 10]]]"
    by (auto dest!: spec [of _ 0])
  moreover from each have "out ! 1 = [[[0, 0]]]"
    by (auto dest!: spec [of _ 1])
  moreover from shape have "shape4 out = [[[2]], [[2]]]"
    by (simp add: shape4_def)
  ultimately show ?thesis
    using out by blast
qed

subsection \<open>CrossStage: the split along the channel axis\<close>

lemma concat_pieces:
  "concat (map (\<lambda>i. take k (drop (i * k) x)) [0 ..< m]) = take (m * k) x"
proof (induction m)
  case 0
  show ?case by simp
next
  case (Suc m)
  have "take (m * k + k) x = take (m * k) x @ take k (drop (m * k) x)"
    by (rule take_add)
  with Suc show ?case by (simp add: add.commute)
qed

lemma pieces_cover:
  fixes n k :: nat
  assumes "0 < k"
  shows "n \<le> ((n + k - 1) div k) * k"
proof -
  have "(n + k - 1) mod k < k"
    using assms by simp
  moreover have "(n + k - 1) div k * k + (n + k - 1) mod k = n + k - 1"
    by simp
  ultimately show ?thesis
    using assms by linarith
qed

lemma concat_split_channels: "0 < k \<Longrightarrow> concat (split_channels k x) = x"
  unfolding split_channels_def concat_pieces
  using pieces_cover [of k "length x"] by simp

lemma concat_chunk_channels:
  assumes "0 < n"
  shows "concat (chunk_channels x n) = x"
proof (cases "(length x + n - 1) div n = 0")
  case True
  with assms have "length x + n - 1 < n"
    by (simp add: div_eq_0_iff)
  with assms have "length x = 0"
    by linarith
  with True show ?thesis
    by (simp add: chunk_channels_def)
next
  case False
  then show ?thesis
    by (simp add: chunk_channels_def concat_split_channels)
qed

text \<open>
  A tensor with \<open>n * k\<close> channels, \<open>k > 0\<close>, is chunked into \<open>n\<close> pieces of \<open>k\<close> channels.
\<close>

lemma split_size_pieces:
  fixes k :: nat
  assumes "0 < k" "0 < n"
  shows "(n * k + n - 1) div n = k" and "(n * k + k - 1) div k = n"
proof -
  from assms have "n * k \<le> n * k + n - 1" "n * k + n - 1 < n * Suc k"
    by simp_all
  then show "(n * k + n - 1) div n = k"
    by (rule div_nat_eqI)
  from assms have "k * n \<le> n * k + k - 1" "n * k + k - 1 < k * Suc n"
    by (simp_all add: mult.commute)
  then show "(n * k + k - 1) div k = n"
    by (rule div_nat_eqI)
qed

lemma chunk_channels_pieces:
  assumes y: "length y = n * k" and k: "0 < k" and n: "0 < n"
  shows "chunk_channels y n = map (\<lambda>i. take k (drop (i * k) y)) [0 ..< n]"
  using k unfolding chunk_channels_def Let_def split_channels_def y split_size_pieces [OF k n]
  by simp

lemma take_drop_rest: "take n (drop a xs) @ drop (n + a) xs = drop a xs"
  by (simp flip: drop_drop)

lemma small_lists:
  "[0 ..< 2] = [0, 1]" "[0 ..< 4] = [0, 1, 2, 3]"
  "replicate 2 v = [v, v]" "replicate 4 v = [v, v, v, v]" "replicate 5 v = [v, v, v, v, v]"
  "replicate 6 v = [v, v, v, v, v, v]" "replicate 7 v = [v, v, v, v, v, v, v]"
  "replicate 8 v = [v, v, v, v, v, v, v, v]"
  by (simp_all add: numeral_eq_Suc upt_rec)

lemma chunk_channels_even:
  assumes "even (length y)"
  shows "chunk_channels y 2 = [take (length y div 2) y, drop (length y div 2) y]"
proof -
  from assms obtain h where h: "length y = 2 * h"
    by (elim evenE)
  show ?thesis
  proof (cases "h = 0")
    case True
    with h show ?thesis
      by (simp add: chunk_channels_def small_lists)
  next
    case False
    with h have "chunk_channels y 2 = map (\<lambda>i. take h (drop (i * h) y)) [0 ..< 2]"
      by (intro chunk_channels_pieces) simp_all
    with h show ?thesis
      unfolding small_lists by simp
  qed
qed

lemma chunk_channels_quarters:
  assumes "4 dvd length y"
  shows "chunk_channels y 4 =
           [take (length y div 4) y,
            take (length y div 4) (drop (length y div 4) y),
            take (length y div 4) (drop (2 * (length y div 4)) y),
            drop (3 * (length y div 4)) y]"
proof -
  from assms obtain q where q: "length y = 4 * q" ..
  show ?thesis
  proof (cases "q = 0")
    case True
    with q show ?thesis
      by (simp add: chunk_channels_def small_lists)
  next
    case False
    with q have "chunk_channels y 4 = map (\<lambda>i. take q (drop (i * q) y)) [0 ..< 4]"
      by (intro chunk_channels_pieces) simp_all
    with q show ?thesis
      unfolding small_lists by simp
  qed
qed


lemma SimpleBottleneck_channels:
  assumes laws: "channel_laws T"
    and fwd: "SimpleBottleneck_forward T
                (SimpleBottleneck_init ic mid oc s g gw act kp) a = Inr b"
  shows "int (length a) = ic \<and> int (length b) = oc"
proof -
  define m where "m = SimpleBottleneck_init ic mid oc s g gw act kp"
  have fields: "c_in_channels (sb_conv1 m) = ic" "c_out_channels (sb_conv3 m) = oc"
    "sb_has_residual m \<longleftrightarrow> ic = oc \<and> s = 1"
    by (simp_all add: m_def SimpleBottleneck_init_def Let_def conv1x1_def)
  from fwd obtain c1 n1 c2 n2 c3 n3
    where c1: "nn_Conv2d T (sb_conv1 m) a = Inr c1"
      and c3: "nn_Conv2d T (sb_conv3 m) n2 = Inr c3"
      and n3: "norm_forward T (sb_bn3 m) c3 = Inr n3"
      and last: "(if sb_has_residual m then t_add T n3 a else Inr n3) = Inr b"
    unfolding m_def [symmetric] SimpleBottleneck_forward_def
    by (auto simp: bindE_eq_Inr_iff split: if_splits)
  from channel_laws_conv [OF laws c1] fields have a: "int (length a) = ic"
    by simp
  from channel_laws_conv [OF laws c3] channel_laws_norm [OF laws n3] fields
  have n3': "int (length n3) = oc"
    by simp
  show ?thesis
  proof (cases "sb_has_residual m")
    case True
    with fields a n3' have "length n3 = length a"
      by simp
    with last True channel_laws_add [OF laws, of n3 a b] have "length b = length n3"
      by simp
    with a n3' show ?thesis by simp
  next
    case False
    with last a n3' show ?thesis by simp
  qed
qed

lemma SimplePreActBottleneck_channels:
  assumes laws: "channel_laws T"
    and fwd: "SimplePreActBottleneck_forward T
                (SimplePreActBottleneck_init ic mid oc s act g gw) a = Inr b"
  shows "int (length a) = ic \<and> int (length b) = oc"
proof -
  define m where "m = SimplePreActBottleneck_init ic mid oc s act g gw"
  have fields: "c_in_channels (pa_conv1 m) = ic" "c_out_channels (pa_conv3 m) = oc"
    "pa_has_residual m \<longleftrightarrow> ic = oc \<and> s = 1"
    by (simp_all add: m_def SimplePreActBottleneck_init_def Let_def conv1x1_def)
  from fwd obtain n1 c1 n3 c3
    where n1: "norm_forward T (pa_bn1 m) a = Inr n1"
      and c1: "nn_Conv2d T (pa_conv1 m) n1 = Inr c1"
      and c3: "nn_Conv2d T (pa_conv3 m) n3 = Inr c3"
      and last: "(if pa_has_residual m then t_add T c3 a else Inr c3) = Inr b"
    unfolding m_def [symmetric] SimplePreActBottleneck_forward_def
    by (auto simp: bindE_eq_Inr_iff split: if_splits)
  from channel_laws_conv [OF laws c1] channel_laws_norm [OF laws n1] fields
  have a: "int (length a) = ic"
    by simp
  from channel_laws_conv [OF laws c3] fields have c3': "int (length c3) = oc"
    by simp
  show ?thesis
  proof (cases "pa_has_residual m")
    case True
    with fields a c3' have "length c3 = length a"
      by simp
    with last True channel_laws_add [OF laws, of c3 a b] have "length b = length c3"
      by simp
    with a c3' show ?thesis by simp
  next
    case False
    with last a c3' show ?thesis by simp
  qed
qed

lemma block_channels:
  assumes "channel_laws T"
    and "block_forward T (call_block_fn f ic mid oc s act g gw) a = Inr b"
  shows "int (length a) = ic \<and> int (length b) = oc"
  using assms
  by (cases f)
    (auto simp: block_forward_def call_block_fn_def
      dest: SimpleBottleneck_channels SimplePreActBottleneck_channels)

lemma Sequential_blocks_channels:
  assumes "channel_laws T"
    and "Sequential (block_forward T) (replicate n (call_block_fn f c c c s act g gw)) z = Inr w"
  shows "(n = 0 \<and> w = z) \<or> (int (length z) = c \<and> int (length w) = c)"
  using assms(2)
proof (induction n arbitrary: z)
  case 0
  then show ?case by simp
next
  case (Suc n)
  then obtain v where v: "block_forward T (call_block_fn f c c c s act g gw) z = Inr v"
    and w: "Sequential (block_forward T) (replicate n (call_block_fn f c c c s act g gw)) v = Inr w"
    by (auto simp: bindE_eq_Inr_iff)
  from block_channels [OF assms(1) v] Suc.IH [OF w] show ?case
    by auto
qed

lemma transition_channels:
  assumes "channel_laws T"
    and "forward_or_Identity (transition_forward T)
           (if x2_transition
            then Module (conv1x1 c c 1 False, \<lparr>abn_num_features = c, abn_activation = act\<rparr>)
            else Identity) w = Inr z'"
  shows "(\<not> x2_transition \<and> z' = w) \<or> (int (length w) = c \<and> int (length z') = c)"
proof (cases x2_transition)
  case False
  with assms(2) show ?thesis
    by (simp add: forward_or_Identity_def)
next
  case True
  with assms(2) obtain t where t: "nn_Conv2d T (conv1x1 c c 1 False) w = Inr t"
    and z': "norm_forward T \<lparr>abn_num_features = c, abn_activation = act\<rparr> t = Inr z'"
    by (auto simp: forward_or_Identity_def transition_forward_def bindE_eq_Inr_iff)
  from channel_laws_conv [OF assms(1) t] channel_laws_norm [OF assms(1) z'] show ?thesis
    by (simp add: conv1x1_def)
qed

text \<open>The path through the inner blocks and the transition keeps the number of channels.\<close>

lemma inner_path_channels:
  assumes laws: "channel_laws T"
    and m: "m = CrossStage_init in_chs out_chs num_blocks stride block_fn norm_act
                  csp_block_ratio x2_transition groups groups_width"
    and inner: "bindE (Sequential (block_forward T) (cs_blocks m) z)
                  (forward_or_Identity (transition_forward T) (cs_x2_transition m)) = Inr z'"
  shows "length z' = length z"
proof -
  define c where "c = py_int (csp_block_ratio * of_int out_chs)"
  from inner obtain w where
    w: "Sequential (block_forward T) (cs_blocks m) z = Inr w" and
    z': "forward_or_Identity (transition_forward T) (cs_x2_transition m) w = Inr z'"
    by (auto simp: bindE_eq_Inr_iff)
  from w have "(nat (num_blocks - 1) = 0 \<and> w = z) \<or> (int (length z) = c \<and> int (length w) = c)"
    unfolding m CrossStage_init_def Let_def c_def
    by (intro Sequential_blocks_channels [OF laws]) simp
  moreover from z' have "(\<not> x2_transition \<and> z' = w) \<or> (int (length w) = c \<and> int (length z') = c)"
    unfolding m CrossStage_init_def Let_def c_def
    by (intro transition_channels [OF laws]) simp
  ultimately show ?thesis
    by auto
qed


lemma unpack2_eq_Inr_iff: "unpack2 xs = Inr (a, b) \<longleftrightarrow> xs = [a, b]"
  by (auto simp: unpack2_def split: list.splits)

lemma unpack4_eq_Inr_iff: "unpack4 xs = Inr (a, b, c, d) \<longleftrightarrow> xs = [a, b, c, d]"
  by (auto simp: unpack4_def split: list.splits)


text \<open>
  Claim C7, amended. Let a \<open>CrossStage\<close> be built by its constructor, on an engine that
  obeys the channel laws, and let \<open>y\<close> be the tensor its first layer returns. With ratio
  0.5 and an even number of channels in \<open>y\<close>, \<open>torch.chunk\<close> cuts \<open>y\<close> into its first and
  its second half, \<open>forward\<close> is the second half passed through the inner blocks and the
  transition and then appended to the first half, and whenever \<open>forward\<close> returns, the
  processed half has as many channels as the half it came from and the result as many as
  \<open>y\<close>. With ratio 0.75 and a number of channels that is a multiple of 4, \<open>torch.chunk\<close>
  cuts \<open>y\<close> into four quarters, \<open>forward\<close> joins the last three into the one tensor that
  passes through the inner blocks and the transition and appends the outcome to the first
  quarter, and whenever \<open>forward\<close> returns, the processed part has three quarters of the
  channels of \<open>y\<close> and the result as many channels as \<open>y\<close>.
\<close>

theorem CrossStage_forward_split:
  fixes T :: "'c list torch"
  assumes laws: "channel_laws T"
    and m: "m = CrossStage_init in_chs out_chs num_blocks stride block_fn norm_act
                  csp_block_ratio x2_transition groups groups_width"
    and first: "block_forward T (cs_first_layer m) x = Inr y"
  shows "(csp_block_ratio = 0.5 \<longrightarrow> even (length y) \<longrightarrow>
           torch_chunk T y 2 = [take (length y div 2) y, drop (length y div 2) y] \<and>
           length (take (length y div 2) y) = length y div 2 \<and>
           length (drop (length y div 2) y) = length y div 2 \<and>
           CrossStage_forward T m x =
             bindE (bindE (Sequential (block_forward T) (cs_blocks m) (drop (length y div 2) y))
                      (forward_or_Identity (transition_forward T) (cs_x2_transition m)))
               (\<lambda>x2. torch_cat T [take (length y div 2) y, x2]) \<and>
           (\<forall>out. CrossStage_forward T m x = Inr out \<longrightarrow>
              (\<exists>x2. bindE (Sequential (block_forward T) (cs_blocks m) (drop (length y div 2) y))
                      (forward_or_Identity (transition_forward T) (cs_x2_transition m)) = Inr x2 \<and>
                    length x2 = length y div 2 \<and>
                    out = take (length y div 2) y @ x2 \<and> length out = length y))) \<and>
         (csp_block_ratio = 0.75 \<longrightarrow> 4 dvd length y \<longrightarrow>
           torch_chunk T y 4 =
             [take (length y div 4) y,
              take (length y div 4) (drop (length y div 4) y),
              take (length y div 4) (drop (2 * (length y div 4)) y),
              drop (3 * (length y div 4)) y] \<and>
           length (take (length y div 4) y) = length y div 4 \<and>
           length (take (length y div 4) (drop (length y div 4) y)) = length y div 4 \<and>
           length (take (length y div 4) (drop (2 * (length y div 4)) y)) = length y div 4 \<and>
           length (drop (3 * (length y div 4)) y) = length y div 4 \<and>
           CrossStage_forward T m x =
             bindE (torch_cat T
                 [take (length y div 4) (drop (length y div 4) y),
                  take (length y div 4) (drop (2 * (length y div 4)) y),
                  drop (3 * (length y div 4)) y]) (\<lambda>x2.
             bindE (bindE (Sequential (block_forward T) (cs_blocks m) x2)
                      (forward_or_Identity (transition_forward T) (cs_x2_transition m))) (\<lambda>x2.
             torch_cat T [take (length y div 4) y, x2])) \<and>
           (\<forall>out. CrossStage_forward T m x = Inr out \<longrightarrow>
              (\<exists>x2. bindE (Sequential (block_forward T) (cs_blocks m) (drop (length y div 4) y))
                      (forward_or_Identity (transition_forward T) (cs_x2_transition m)) = Inr x2 \<and>
                    length x2 = 3 * (length y div 4) \<and>
                    out = take (length y div 4) y @ x2 \<and> length out = length y)))"
proof -
  let ?inner = "\<lambda>z. bindE (Sequential (block_forward T) (cs_blocks m) z)
                      (forward_or_Identity (transition_forward T) (cs_x2_transition m))"
  have halves:
    "torch_chunk T y 2 = [take (length y div 2) y, drop (length y div 2) y] \<and>
     length (take (length y div 2) y) = length y div 2 \<and>
     length (drop (length y div 2) y) = length y div 2 \<and>
     CrossStage_forward T m x =
       bindE (?inner (drop (length y div 2) y))
         (\<lambda>x2. torch_cat T [take (length y div 2) y, x2]) \<and>
     (\<forall>out. CrossStage_forward T m x = Inr out \<longrightarrow>
        (\<exists>x2. ?inner (drop (length y div 2) y) = Inr x2 \<and> length x2 = length y div 2 \<and>
              out = take (length y div 2) y @ x2 \<and> length out = length y))"
    if half: "csp_block_ratio = 0.5" and ev: "even (length y)"
  proof -
    let ?h = "length y div 2"
    from half have ratio: "cs_csp_block_ratio m = 0.5"
      by (simp add: m CrossStage_init_def Let_def)
    have chunk: "torch_chunk T y 2 = [take ?h y, drop ?h y]"
      by (simp only: channel_laws_chunk [OF laws] chunk_channels_even [OF ev])
    have eq: "CrossStage_forward T m x =
        bindE (?inner (drop ?h y)) (\<lambda>x2. torch_cat T [take ?h y, x2])"
      by (simp add: CrossStage_forward_def first ratio chunk unpack2_def local_var_def
          bindE_assoc)
    from ev have len: "length (take ?h y) = ?h" "length (drop ?h y) = ?h"
      by (auto elim!: evenE)
    have ret: "\<exists>x2. ?inner (drop ?h y) = Inr x2 \<and> length x2 = ?h \<and>
               out = take ?h y @ x2 \<and> length out = length y"
      if "CrossStage_forward T m x = Inr out" for out
    proof -
      from that eq
      have "bindE (?inner (drop ?h y)) (\<lambda>x2. torch_cat T [take ?h y, x2]) = Inr out"
        by simp
      then obtain x2 where inner: "?inner (drop ?h y) = Inr x2"
        and cat: "torch_cat T [take ?h y, x2] = Inr out"
        by (cases "?inner (drop ?h y)") simp_all
      from inner_path_channels [OF laws m inner] len have l: "length x2 = ?h"
        by simp
      from channel_laws_cat [OF laws cat] have out: "out = take ?h y @ x2"
        by simp
      with l ev have "length out = length y"
        by (auto elim!: evenE)
      with inner l out show ?thesis
        by blast
    qed
    from chunk len eq ret show ?thesis
      by blast
  qed
  have quarters:
    "torch_chunk T y 4 =
       [take (length y div 4) y,
        take (length y div 4) (drop (length y div 4) y),
        take (length y div 4) (drop (2 * (length y div 4)) y),
        drop (3 * (length y div 4)) y] \<and>
     length (take (length y div 4) y) = length y div 4 \<and>
     length (take (length y div 4) (drop (length y div 4) y)) = length y div 4 \<and>
     length (take (length y div 4) (drop (2 * (length y div 4)) y)) = length y div 4 \<and>
     length (drop (3 * (length y div 4)) y) = length y div 4 \<and>
     CrossStage_forward T m x =
       bindE (torch_cat T
           [take (length y div 4) (drop (length y div 4) y),
            take (length y div 4) (drop (2 * (length y div 4)) y),
            drop (3 * (length y div 4)) y]) (\<lambda>x2.
       bindE (?inner x2) (\<lambda>x2. torch_cat T [take (length y div 4) y, x2])) \<and>
     (\<forall>out. CrossStage_forward T m x = Inr out \<longrightarrow>
        (\<exists>x2. ?inner (drop (length y div 4) y) = Inr x2 \<and> length x2 = 3 * (length y div 4) \<and>
              out = take (length y div 4) y @ x2 \<and> length out = length y))"
    if three: "csp_block_ratio = 0.75" and dvd: "4 dvd length y"
  proof -
    let ?q = "length y div 4"
    from dvd obtain k where k: "length y = 4 * k" ..
    from three have ratio: "cs_csp_block_ratio m = 0.75"
      by (simp add: m CrossStage_init_def Let_def)
    then have not_half: "cs_csp_block_ratio m \<noteq> 0.5"
      by simp
    have chunk: "torch_chunk T y 4 =
        [take ?q y, take ?q (drop ?q y), take ?q (drop (2 * ?q) y), drop (3 * ?q) y]"
      by (simp only: channel_laws_chunk [OF laws] chunk_channels_quarters [OF dvd])
    have eq: "CrossStage_forward T m x =
        bindE (torch_cat T [take ?q (drop ?q y), take ?q (drop (2 * ?q) y), drop (3 * ?q) y])
          (\<lambda>x2. bindE (?inner x2) (\<lambda>x2. torch_cat T [take ?q y, x2]))"
      by (simp add: CrossStage_forward_def first ratio not_half chunk unpack4_def local_var_def
          bindE_assoc)
    from k have len: "length (take ?q y) = ?q" "length (take ?q (drop ?q y)) = ?q"
      "length (take ?q (drop (2 * ?q) y)) = ?q" "length (drop (3 * ?q) y) = ?q"
      by simp_all
    have rest: "take ?q (drop ?q y) @ take ?q (drop (2 * ?q) y) @ drop (3 * ?q) y = drop ?q y"
    proof -
      have e: "2 * ?q = ?q + ?q" "3 * ?q = ?q + (?q + ?q)"
        by simp_all
      have "take ?q (drop (?q + ?q) y) @ drop (?q + (?q + ?q)) y = drop (?q + ?q) y"
        "take ?q (drop ?q y) @ drop (?q + ?q) y = drop ?q y"
        by (rule take_drop_rest)+
      then show ?thesis
        by (simp only: e)
    qed
    have ret: "\<exists>x2. ?inner (drop ?q y) = Inr x2 \<and> length x2 = 3 * ?q \<and>
               out = take ?q y @ x2 \<and> length out = length y"
      if "CrossStage_forward T m x = Inr out" for out
    proof -
      from that eq
      have "bindE (torch_cat T [take ?q (drop ?q y), take ?q (drop (2 * ?q) y), drop (3 * ?q) y])
          (\<lambda>x2. bindE (?inner x2) (\<lambda>x2. torch_cat T [take ?q y, x2])) = Inr out"
        by simp
      then obtain z
        where regroup: "torch_cat T
            [take ?q (drop ?q y), take ?q (drop (2 * ?q) y), drop (3 * ?q) y] = Inr z"
          and after: "bindE (?inner z) (\<lambda>x2. torch_cat T [take ?q y, x2]) = Inr out"
        by (cases "torch_cat T
            [take ?q (drop ?q y), take ?q (drop (2 * ?q) y), drop (3 * ?q) y]") simp_all
      from channel_laws_cat [OF laws regroup] rest have z: "z = drop ?q y"
        by simp
      from after obtain x2 where inner: "?inner z = Inr x2"
        and cat: "torch_cat T [take ?q y, x2] = Inr out"
        by (cases "?inner z") simp_all
      from inner_path_channels [OF laws m inner] z k have l: "length x2 = 3 * ?q"
        by simp
      from channel_laws_cat [OF laws cat] have out: "out = take ?q y @ x2"
        by simp
      with l k have "length out = length y"
        by simp
      with inner z l out show ?thesis
        by blast
    qed
    from chunk len eq ret show ?thesis
      by blast
  qed
  show ?thesis
    by (rule conjI; intro impI; rule halves quarters; assumption)
qed


subsection \<open>CrossStage on concrete tensors\<close>

lemma CrossStage_init_half:
  "CrossStage_init 2 4 2 2 SimpleBottleneck_fn ''leaky_relu'' 0.5 True 1 None =
     \<lparr>cs_first_layer = SB (SimpleBottleneck_init 2 4 4 2 1 None ''leaky_relu'' 1),
      cs_blocks = [SB (SimpleBottleneck_init 2 2 2 1 1 None ''leaky_relu'' 1)],
      cs_x2_transition =
        Module (conv1x1 2 2 1 False, \<lparr>abn_num_features = 2, abn_activation = ''identity''\<rparr>),
      cs_csp_block_ratio = 0.5\<rparr>"
  by (simp add: CrossStage_init_def call_block_fn_def py_int_def)

lemma CrossStage_init_three_quarters:
  "CrossStage_init 2 8 2 2 SimplePreActBottleneck_fn ''leaky_relu'' 0.75 False 1 None =
     \<lparr>cs_first_layer = PA (SimplePreActBottleneck_init 2 8 8 2 ''leaky_relu'' 1 None),
      cs_blocks = [PA (SimplePreActBottleneck_init 6 6 6 1 ''leaky_relu'' 1 None)],
      cs_x2_transition = Identity,
      cs_csp_block_ratio = 0.75\<rparr>"
  by (simp add: CrossStage_init_def call_block_fn_def py_int_def)

lemma SB_first:
  "SimpleBottleneck_forward channel_torch (SimpleBottleneck_init 2 4 4 2 1 None ''leaky_relu'' 1)
     [2, 3] = Inr [101, 101, 101, 101]"
  by (simp add: SimpleBottleneck_forward_def SimpleBottleneck_init_def channel_torch_simps
      conv1x1_def conv3x3_def small_lists)

lemma SB_inner:
  "SimpleBottleneck_forward channel_torch (SimpleBottleneck_init 2 2 2 1 1 None ''leaky_relu'' 1)
     [101, 101] = Inr [916, 916]"
  by (simp add: SimpleBottleneck_forward_def SimpleBottleneck_init_def channel_torch_simps
      conv1x1_def conv3x3_def small_lists)

lemma chunk_half: "chunk_channels [101, 101, 101, 101 :: nat] 2 = [[101, 101], [101, 101]]"
  by code_simp

lemma PA_first:
  "SimplePreActBottleneck_forward channel_torch
     (SimplePreActBottleneck_init 2 8 8 2 ''leaky_relu'' 1 None) [2, 3] =
   Inr [393, 393, 393, 393, 393, 393, 393, 393]"
  by (simp add: SimplePreActBottleneck_forward_def SimplePreActBottleneck_init_def
      channel_torch_simps conv1x1_def conv3x3_def small_lists)

lemma PA_inner:
  "SimplePreActBottleneck_forward channel_torch
     (SimplePreActBottleneck_init 6 6 6 1 ''leaky_relu'' 1 None)
     [393, 393, 393, 393, 393, 393] = Inr [85324, 85324, 85324, 85324, 85324, 85324]"
  by (simp add: SimplePreActBottleneck_forward_def SimplePreActBottleneck_init_def
      channel_torch_simps conv1x1_def conv3x3_def small_lists)

lemma chunk_quarters:
  "chunk_channels [393, 393, 393, 393, 393, 393, 393, 393 :: nat] 4 =
     [[393, 393], [393, 393], [393, 393], [393, 393]]"
  by code_simp

lemma CrossStage_example_half:
  "block_forward channel_torch
     (cs_first_layer (CrossStage_init 2 4 2 2 SimpleBottleneck_fn ''leaky_relu'' 0.5 True 1 None))
     [2, 3] = Inr [101, 101, 101, 101]"
  "CrossStage_forward channel_torch
     (CrossStage_init 2 4 2 2 SimpleBottleneck_fn ''leaky_relu'' 0.5 True 1 None) [2, 3] =
   Inr [101, 101, 1833, 1833]"
  unfolding CrossStage_init_half
  by (simp_all add: CrossStage_forward_def block_forward_def SB_first SB_inner chunk_half
      channel_torch_simps unpack2_def local_var_def forward_or_Identity_def
      transition_forward_def conv1x1_def small_lists)

lemma CrossStage_example_three_quarters:
  "block_forward channel_torch
     (cs_first_layer
       (CrossStage_init 2 8 2 2 SimplePreActBottleneck_fn ''leaky_relu'' 0.75 False 1 None))
     [2, 3] = Inr [393, 393, 393, 393, 393, 393, 393, 393]"
  "CrossStage_forward channel_torch
     (CrossStage_init 2 8 2 2 SimplePreActBottleneck_fn ''leaky_relu'' 0.75 False 1 None) [2, 3] =
   Inr [393, 393, 85324, 85324, 85324, 85324, 85324, 85324]"
  unfolding CrossStage_init_three_quarters
  by (simp_all add: CrossStage_forward_def block_forward_def PA_first PA_inner chunk_quarters
      channel_torch_simps unpack4_def local_var_def forward_or_Identity_def small_lists)


theorem CrossStage_forward_split_witness:
  "(torch_chunk channel_torch [101, 101, 101, 101] 2 = [[101, 101], [101, 101]] \<and>
    (\<exists>x2. bindE (Sequential (block_forward channel_torch)
               (cs_blocks
                 (CrossStage_init 2 4 2 2 SimpleBottleneck_fn ''leaky_relu'' 0.5 True 1 None))
               [101, 101])
             (forward_or_Identity (transition_forward channel_torch)
               (cs_x2_transition
                 (CrossStage_init 2 4 2 2 SimpleBottleneck_fn ''leaky_relu'' 0.5 True 1 None)))
             = Inr x2 \<and>
           length x2 = 2 \<and>
           CrossStage_forward channel_torch
             (CrossStage_init 2 4 2 2 SimpleBottleneck_fn ''leaky_relu'' 0.5 True 1 None) [2, 3] =
           Inr ([101, 101] @ x2) \<and>
           [101, 101] @ x2 = [101, 101, 1833, 1833])) \<and>
   (torch_chunk channel_torch [393, 393, 393, 393, 393, 393, 393, 393] 4 =
      [[393, 393], [393, 393], [393, 393], [393, 393]] \<and>
    (\<exists>x2. bindE (Sequential (block_forward channel_torch)
               (cs_blocks
                 (CrossStage_init 2 8 2 2 SimplePreActBottleneck_fn ''leaky_relu'' 0.75 False 1
                   None))
               [393, 393, 393, 393, 393, 393])
             (forward_or_Identity (transition_forward channel_torch)
               (cs_x2_transition
                 (CrossStage_init 2 8 2 2 SimplePreActBottleneck_fn ''leaky_relu'' 0.75 False 1
                   None)))
             = Inr x2 \<and>
           length x2 = 6 \<and>
           CrossStage_forward channel_torch
             (CrossStage_init 2 8 2 2 SimplePreActBottleneck_fn ''leaky_relu'' 0.75 False 1 None)
             [2, 3] =
           Inr ([393, 393] @ x2) \<and>
           [393, 393] @ x2 = [393, 393, 85324, 85324, 85324, 85324, 85324, 85324]))"
proof -
  have len4: "length [101, 101, 101, 101 :: nat] = 4"
    by simp
  have ev: "even (length [101, 101, 101, 101 :: nat])"
    unfolding len4 by simp
  have h: "length [101, 101, 101, 101 :: nat] div 2 = 2"
    unfolding len4 by simp
  note half = CrossStage_forward_split
    [OF channel_torch_laws refl CrossStage_example_half(1), THEN conjunct1, rule_format,
     OF refl ev, unfolded h]
  from half have chunk2:
    "torch_chunk channel_torch [101, 101, 101, 101] 2 = [[101, 101], [101, 101]]"
    by simp
  from half [THEN conjunct2, THEN conjunct2, THEN conjunct2, THEN conjunct2, rule_format,
      OF CrossStage_example_half(2)]
  have a: "\<exists>x2. bindE (Sequential (block_forward channel_torch)
               (cs_blocks
                 (CrossStage_init 2 4 2 2 SimpleBottleneck_fn ''leaky_relu'' 0.5 True 1 None))
               [101, 101])
             (forward_or_Identity (transition_forward channel_torch)
               (cs_x2_transition
                 (CrossStage_init 2 4 2 2 SimpleBottleneck_fn ''leaky_relu'' 0.5 True 1 None)))
             = Inr x2 \<and>
           length x2 = 2 \<and>
           CrossStage_forward channel_torch
             (CrossStage_init 2 4 2 2 SimpleBottleneck_fn ''leaky_relu'' 0.5 True 1 None) [2, 3] =
           Inr ([101, 101] @ x2) \<and>
           [101, 101] @ x2 = [101, 101, 1833, 1833]"
    using CrossStage_example_half(2) by auto
  have len8: "length [393, 393, 393, 393, 393, 393, 393, 393 :: nat] = 8"
    by simp
  have dvd: "4 dvd length [393, 393, 393, 393, 393, 393, 393, 393 :: nat]"
    unfolding len8 by simp
  have q: "length [393, 393, 393, 393, 393, 393, 393, 393 :: nat] div 4 = 2"
    unfolding len8 by simp
  note three = CrossStage_forward_split
    [OF channel_torch_laws refl CrossStage_example_three_quarters(1), THEN conjunct2,
     rule_format, OF refl dvd, unfolded q]
  from three have chunk4:
    "torch_chunk channel_torch [393, 393, 393, 393, 393, 393, 393, 393] 4 =
       [[393, 393], [393, 393], [393, 393], [393, 393]]"
    by simp
  from three [THEN conjunct2, THEN conjunct2, THEN conjunct2, THEN conjunct2, THEN conjunct2,
      THEN conjunct2, rule_format, OF CrossStage_example_three_quarters(2)]
  have b: "\<exists>x2. bindE (Sequential (block_forward channel_torch)
               (cs_blocks
                 (CrossStage_init 2 8 2 2 SimplePreActBottleneck_fn ''leaky_relu'' 0.75 False 1
                   None))
               [393, 393, 393, 393, 393, 393])
             (forward_or_Identity (transition_forward channel_torch)
               (cs_x2_transition
                 (CrossStage_init 2 8 2 2 SimplePreActBottleneck_fn ''leaky_relu'' 0.75 False 1
                   None)))
             = Inr x2 \<and>
           length x2 = 6 \<and>
           CrossStage_forward channel_torch
             (CrossStage_init 2 8 2 2 SimplePreActBottleneck_fn ''leaky_relu'' 0.75 False 1 None)
             [2, 3] =
           Inr ([393, 393] @ x2) \<and>
           [393, 393] @ x2 = [393, 393, 85324, 85324, 85324, 85324, 85324, 85324]"
    using CrossStage_example_three_quarters(2) by auto
  from chunk2 a chunk4 b show ?thesis
    by blast
qed


text \<open>
  Stages whose first layer returns five, seven and six channels: counts that do not divide
  into halves or quarters.
\<close>

lemma CrossStage_init_five:
  "CrossStage_init 2 5 2 2 SimpleBottleneck_fn ''leaky_relu'' 0.5 True 1 None =
     \<lparr>cs_first_layer = SB (SimpleBottleneck_init 2 5 5 2 1 None ''leaky_relu'' 1),
      cs_blocks = [SB (SimpleBottleneck_init 2 2 2 1 1 None ''leaky_relu'' 1)],
      cs_x2_transition =
        Module (conv1x1 2 2 1 False, \<lparr>abn_num_features = 2, abn_activation = ''identity''\<rparr>),
      cs_csp_block_ratio = 0.5\<rparr>"
  by (simp add: CrossStage_init_def call_block_fn_def py_int_def)

lemma SB_first_five:
  "SimpleBottleneck_forward channel_torch (SimpleBottleneck_init 2 5 5 2 1 None ''leaky_relu'' 1)
     [2, 3] = Inr [156, 156, 156, 156, 156]"
  by (simp add: SimpleBottleneck_forward_def SimpleBottleneck_init_def channel_torch_simps
      conv1x1_def conv3x3_def small_lists)

lemma SB_inner_five:
  "SimpleBottleneck_forward channel_torch (SimpleBottleneck_init 2 2 2 1 1 None ''leaky_relu'' 1)
     [156, 156] = Inr [1411, 1411]"
  by (simp add: SimpleBottleneck_forward_def SimpleBottleneck_init_def channel_torch_simps
      conv1x1_def conv3x3_def small_lists)

lemma chunk_five:
  "chunk_channels [156, 156, 156, 156, 156 :: nat] 2 = [[156, 156, 156], [156, 156]]"
  by code_simp

lemma CrossStage_init_seven:
  "CrossStage_init 2 7 2 2 SimplePreActBottleneck_fn ''leaky_relu'' 0.75 False 1 None =
     \<lparr>cs_first_layer = PA (SimplePreActBottleneck_init 2 7 7 2 ''leaky_relu'' 1 None),
      cs_blocks = [PA (SimplePreActBottleneck_init 5 5 5 1 ''leaky_relu'' 1 None)],
      cs_x2_transition = Identity,
      cs_csp_block_ratio = 0.75\<rparr>"
  by (simp add: CrossStage_init_def call_block_fn_def py_int_def)

lemma PA_first_seven:
  "SimplePreActBottleneck_forward channel_torch
     (SimplePreActBottleneck_init 2 7 7 2 ''leaky_relu'' 1 None) [2, 3] =
   Inr [302, 302, 302, 302, 302, 302, 302]"
  by (simp add: SimplePreActBottleneck_forward_def SimplePreActBottleneck_init_def
      channel_torch_simps conv1x1_def conv3x3_def small_lists)

lemma PA_inner_seven:
  "SimplePreActBottleneck_forward channel_torch
     (SimplePreActBottleneck_init 5 5 5 1 ''leaky_relu'' 1 None)
     [302, 302, 302, 302, 302] = Inr [38083, 38083, 38083, 38083, 38083]"
  by (simp add: SimplePreActBottleneck_forward_def SimplePreActBottleneck_init_def
      channel_torch_simps conv1x1_def conv3x3_def small_lists)

lemma chunk_seven:
  "chunk_channels [302, 302, 302, 302, 302, 302, 302 :: nat] 4 =
     [[302, 302], [302, 302], [302, 302], [302]]"
  by code_simp

lemma CrossStage_init_six:
  "CrossStage_init 2 6 2 2 SimplePreActBottleneck_fn ''leaky_relu'' 0.75 False 1 None =
     \<lparr>cs_first_layer = PA (SimplePreActBottleneck_init 2 6 6 2 ''leaky_relu'' 1 None),
      cs_blocks = [PA (SimplePreActBottleneck_init 4 4 4 1 ''leaky_relu'' 1 None)],
      cs_x2_transition = Identity,
      cs_csp_block_ratio = 0.75\<rparr>"
  by (simp add: CrossStage_init_def call_block_fn_def py_int_def)

lemma PA_first_six:
  "SimplePreActBottleneck_forward channel_torch
     (SimplePreActBottleneck_init 2 6 6 2 ''leaky_relu'' 1 None) [2, 3] =
   Inr [223, 223, 223, 223, 223, 223]"
  by (simp add: SimplePreActBottleneck_forward_def SimplePreActBottleneck_init_def
      channel_torch_simps conv1x1_def conv3x3_def small_lists)

lemma chunk_six:
  "chunk_channels [223, 223, 223, 223, 223, 223 :: nat] 4 = [[223, 223], [223, 223], [223, 223]]"
  by code_simp


text \<open>
  The claim as first stated fails where the channel count does not divide. With ratio 0.5
  and five channels after the first layer, \<open>torch.chunk\<close> gives three channels and two, and
  \<open>forward\<close> returns the three untouched followed by the two processed. With ratio 0.75 and
  seven channels the four pieces hold two, two, two and one channel, and five channels pass
  through the inner block. With ratio 0.75 and six channels \<open>torch.chunk\<close> returns three
  pieces of two channels, and unpacking them into four names raises.
\<close>

theorem CrossStage_unequal_split_counterexample:
  "block_forward channel_torch
     (cs_first_layer (CrossStage_init 2 5 2 2 SimpleBottleneck_fn ''leaky_relu'' 0.5 True 1 None))
     [2, 3] = Inr [156, 156, 156, 156, 156] \<and>
   torch_chunk channel_torch [156, 156, 156, 156, 156] 2 = [[156, 156, 156], [156, 156]] \<and>
   CrossStage_forward channel_torch
     (CrossStage_init 2 5 2 2 SimpleBottleneck_fn ''leaky_relu'' 0.5 True 1 None) [2, 3] =
   Inr [156, 156, 156, 2823, 2823] \<and>
   block_forward channel_torch
     (cs_first_layer
       (CrossStage_init 2 7 2 2 SimplePreActBottleneck_fn ''leaky_relu'' 0.75 False 1 None))
     [2, 3] = Inr [302, 302, 302, 302, 302, 302, 302] \<and>
   torch_chunk channel_torch [302, 302, 302, 302, 302, 302, 302] 4 =
     [[302, 302], [302, 302], [302, 302], [302]] \<and>
   CrossStage_forward channel_torch
     (CrossStage_init 2 7 2 2 SimplePreActBottleneck_fn ''leaky_relu'' 0.75 False 1 None) [2, 3] =
   Inr [302, 302, 38083, 38083, 38083, 38083, 38083] \<and>
   block_forward channel_torch
     (cs_first_layer
       (CrossStage_init 2 6 2 2 SimplePreActBottleneck_fn ''leaky_relu'' 0.75 False 1 None))
     [2, 3] = Inr [223, 223, 223, 223, 223, 223] \<and>
   torch_chunk channel_torch [223, 223, 223, 223, 223, 223] 4 =
     [[223, 223], [223, 223], [223, 223]] \<and>
   CrossStage_forward channel_torch
     (CrossStage_init 2 6 2 2 SimplePreActBottleneck_fn ''leaky_relu'' 0.75 False 1 None) [2, 3] =
   Inl ValueError"
  unfolding CrossStage_init_five CrossStage_init_seven CrossStage_init_six
  by (simp add: CrossStage_forward_def block_forward_def SB_first_five SB_inner_five chunk_five
      PA_first_seven PA_inner_seven chunk_seven PA_first_six chunk_six channel_torch_simps
      unpack2_def unpack4_def local_var_def forward_or_Identity_def transition_forward_def
      conv1x1_def small_lists)

end
